theory Spec2Isabelle
  imports Main "HOL-Library.Word" "HOL-Library.Log_Nat" "HOL-Library.Monad_Syntax"
begin

unbundle bit_operations_syntax

section \<open>Return codes and data type tags (modbus_conversion.h)\<close>

text \<open>
  The return codes are the integer macros of the header.  The enumeration
  \<open>modbus_data_type_t\<close> is a C enumeration: its enumerators are the integers 0 to 42 in
  declaration order, the decoders compare tags with \<open>>=\<close> and \<open><=\<close>, and a caller can pass
  any integer.  A tag is therefore an \<open>int\<close> and every enumerator a named constant.
\<close>

definition MODBUS_CONV_OK :: int where "MODBUS_CONV_OK = 0"
definition MODBUS_CONV_ERR_NULL_PTR :: int where "MODBUS_CONV_ERR_NULL_PTR = - 1"
definition MODBUS_CONV_ERR_INVALID_TYPE :: int where "MODBUS_CONV_ERR_INVALID_TYPE = - 2"
definition MODBUS_CONV_ERR_INVALID_BIT :: int where "MODBUS_CONV_ERR_INVALID_BIT = - 3"
definition MODBUS_CONV_ERR_INSUFF_REGS :: int where "MODBUS_CONV_ERR_INSUFF_REGS = - 4"
definition MODBUS_CONV_ERR_UNKNOWN :: int where "MODBUS_CONV_ERR_UNKNOWN = - 5"

lemmas rc_defs =
  MODBUS_CONV_OK_def MODBUS_CONV_ERR_NULL_PTR_def MODBUS_CONV_ERR_INVALID_TYPE_def
  MODBUS_CONV_ERR_INVALID_BIT_def MODBUS_CONV_ERR_INSUFF_REGS_def MODBUS_CONV_ERR_UNKNOWN_def

definition MODBUS_BIT_BOOLEAN :: int where "MODBUS_BIT_BOOLEAN = 0"
definition MODBUS_INT8_SIGNED :: int where "MODBUS_INT8_SIGNED = 1"
definition MODBUS_INT8_UNSIGNED :: int where "MODBUS_INT8_UNSIGNED = 2"
definition MODBUS_INT16_SIGNED_AB :: int where "MODBUS_INT16_SIGNED_AB = 3"
definition MODBUS_INT16_SIGNED_BA :: int where "MODBUS_INT16_SIGNED_BA = 4"
definition MODBUS_INT16_UNSIGNED_AB :: int where "MODBUS_INT16_UNSIGNED_AB = 5"
definition MODBUS_INT16_UNSIGNED_BA :: int where "MODBUS_INT16_UNSIGNED_BA = 6"
definition MODBUS_INT32_SIGNED_ABCD :: int where "MODBUS_INT32_SIGNED_ABCD = 7"
definition MODBUS_INT32_SIGNED_DCBA :: int where "MODBUS_INT32_SIGNED_DCBA = 8"
definition MODBUS_INT32_SIGNED_BADC :: int where "MODBUS_INT32_SIGNED_BADC = 9"
definition MODBUS_INT32_SIGNED_CDAB :: int where "MODBUS_INT32_SIGNED_CDAB = 10"
definition MODBUS_INT32_UNSIGNED_ABCD :: int where "MODBUS_INT32_UNSIGNED_ABCD = 11"
definition MODBUS_INT32_UNSIGNED_DCBA :: int where "MODBUS_INT32_UNSIGNED_DCBA = 12"
definition MODBUS_INT32_UNSIGNED_BADC :: int where "MODBUS_INT32_UNSIGNED_BADC = 13"
definition MODBUS_INT32_UNSIGNED_CDAB :: int where "MODBUS_INT32_UNSIGNED_CDAB = 14"
definition MODBUS_INT64_SIGNED_ABCDEFGH :: int where "MODBUS_INT64_SIGNED_ABCDEFGH = 15"
definition MODBUS_INT64_SIGNED_HGFEDCBA :: int where "MODBUS_INT64_SIGNED_HGFEDCBA = 16"
definition MODBUS_INT64_SIGNED_BADCFEHG :: int where "MODBUS_INT64_SIGNED_BADCFEHG = 17"
definition MODBUS_INT64_SIGNED_CDABGHEF :: int where "MODBUS_INT64_SIGNED_CDABGHEF = 18"
definition MODBUS_INT64_SIGNED_DCBAHGFE :: int where "MODBUS_INT64_SIGNED_DCBAHGFE = 19"
definition MODBUS_INT64_SIGNED_GHEFCDAB :: int where "MODBUS_INT64_SIGNED_GHEFCDAB = 20"
definition MODBUS_INT64_SIGNED_FEHGBADC :: int where "MODBUS_INT64_SIGNED_FEHGBADC = 21"
definition MODBUS_INT64_SIGNED_EFGHABCD :: int where "MODBUS_INT64_SIGNED_EFGHABCD = 22"
definition MODBUS_INT64_UNSIGNED_ABCDEFGH :: int where "MODBUS_INT64_UNSIGNED_ABCDEFGH = 23"
definition MODBUS_INT64_UNSIGNED_HGFEDCBA :: int where "MODBUS_INT64_UNSIGNED_HGFEDCBA = 24"
definition MODBUS_INT64_UNSIGNED_BADCFEHG :: int where "MODBUS_INT64_UNSIGNED_BADCFEHG = 25"
definition MODBUS_INT64_UNSIGNED_CDABGHEF :: int where "MODBUS_INT64_UNSIGNED_CDABGHEF = 26"
definition MODBUS_INT64_UNSIGNED_DCBAHGFE :: int where "MODBUS_INT64_UNSIGNED_DCBAHGFE = 27"
definition MODBUS_INT64_UNSIGNED_GHEFCDAB :: int where "MODBUS_INT64_UNSIGNED_GHEFCDAB = 28"
definition MODBUS_INT64_UNSIGNED_FEHGBADC :: int where "MODBUS_INT64_UNSIGNED_FEHGBADC = 29"
definition MODBUS_INT64_UNSIGNED_EFGHABCD :: int where "MODBUS_INT64_UNSIGNED_EFGHABCD = 30"
definition MODBUS_IEEE_FLOAT32_ABCD :: int where "MODBUS_IEEE_FLOAT32_ABCD = 31"
definition MODBUS_IEEE_FLOAT32_CDAB :: int where "MODBUS_IEEE_FLOAT32_CDAB = 32"
definition MODBUS_IEEE_FLOAT32_DCBA :: int where "MODBUS_IEEE_FLOAT32_DCBA = 33"
definition MODBUS_IEEE_FLOAT32_BADC :: int where "MODBUS_IEEE_FLOAT32_BADC = 34"
definition MODBUS_IEEE_FLOAT64_ABCDEFGH :: int where "MODBUS_IEEE_FLOAT64_ABCDEFGH = 35"
definition MODBUS_IEEE_FLOAT64_HGFEDCBA :: int where "MODBUS_IEEE_FLOAT64_HGFEDCBA = 36"
definition MODBUS_IEEE_FLOAT64_BADCFEHG :: int where "MODBUS_IEEE_FLOAT64_BADCFEHG = 37"
definition MODBUS_IEEE_FLOAT64_CDABGHEF :: int where "MODBUS_IEEE_FLOAT64_CDABGHEF = 38"
definition MODBUS_IEEE_FLOAT64_DCBAHGFE :: int where "MODBUS_IEEE_FLOAT64_DCBAHGFE = 39"
definition MODBUS_IEEE_FLOAT64_GHEFCDAB :: int where "MODBUS_IEEE_FLOAT64_GHEFCDAB = 40"
definition MODBUS_IEEE_FLOAT64_FEHGBADC :: int where "MODBUS_IEEE_FLOAT64_FEHGBADC = 41"
definition MODBUS_IEEE_FLOAT64_EFGHABCD :: int where "MODBUS_IEEE_FLOAT64_EFGHABCD = 42"

lemmas tag_defs =
  MODBUS_BIT_BOOLEAN_def MODBUS_INT8_SIGNED_def MODBUS_INT8_UNSIGNED_def
  MODBUS_INT16_SIGNED_AB_def MODBUS_INT16_SIGNED_BA_def
  MODBUS_INT16_UNSIGNED_AB_def MODBUS_INT16_UNSIGNED_BA_def
  MODBUS_INT32_SIGNED_ABCD_def MODBUS_INT32_SIGNED_DCBA_def
  MODBUS_INT32_SIGNED_BADC_def MODBUS_INT32_SIGNED_CDAB_def
  MODBUS_INT32_UNSIGNED_ABCD_def MODBUS_INT32_UNSIGNED_DCBA_def
  MODBUS_INT32_UNSIGNED_BADC_def MODBUS_INT32_UNSIGNED_CDAB_def
  MODBUS_INT64_SIGNED_ABCDEFGH_def MODBUS_INT64_SIGNED_HGFEDCBA_def
  MODBUS_INT64_SIGNED_BADCFEHG_def MODBUS_INT64_SIGNED_CDABGHEF_def
  MODBUS_INT64_SIGNED_DCBAHGFE_def MODBUS_INT64_SIGNED_GHEFCDAB_def
  MODBUS_INT64_SIGNED_FEHGBADC_def MODBUS_INT64_SIGNED_EFGHABCD_def
  MODBUS_INT64_UNSIGNED_ABCDEFGH_def MODBUS_INT64_UNSIGNED_HGFEDCBA_def
  MODBUS_INT64_UNSIGNED_BADCFEHG_def MODBUS_INT64_UNSIGNED_CDABGHEF_def
  MODBUS_INT64_UNSIGNED_DCBAHGFE_def MODBUS_INT64_UNSIGNED_GHEFCDAB_def
  MODBUS_INT64_UNSIGNED_FEHGBADC_def MODBUS_INT64_UNSIGNED_EFGHABCD_def
  MODBUS_IEEE_FLOAT32_ABCD_def MODBUS_IEEE_FLOAT32_CDAB_def
  MODBUS_IEEE_FLOAT32_DCBA_def MODBUS_IEEE_FLOAT32_BADC_def
  MODBUS_IEEE_FLOAT64_ABCDEFGH_def MODBUS_IEEE_FLOAT64_HGFEDCBA_def
  MODBUS_IEEE_FLOAT64_BADCFEHG_def MODBUS_IEEE_FLOAT64_CDABGHEF_def
  MODBUS_IEEE_FLOAT64_DCBAHGFE_def MODBUS_IEEE_FLOAT64_GHEFCDAB_def
  MODBUS_IEEE_FLOAT64_FEHGBADC_def MODBUS_IEEE_FLOAT64_EFGHABCD_def

section \<open>Conversion results\<close>

text \<open>
  The union \<open>modbus_value_t\<close>.  An object that a \<open>result\<close> pointer designates is modelled
  by the value it holds, tagged with the member through which it was last stored; the
  typed result objects of the specialised decoders (\<open>bool\<close>, \<open>int8_t\<close>, ...) are the same
  values.  Floating-point members hold their IEEE-754 bit pattern.
\<close>

datatype modbus_value_t =
    Bool_val bool
  | I8 "8 word" | U8 "8 word"
  | I16 "16 word" | U16 "16 word"
  | I32 "32 word" | U32 "32 word"
  | I64 "64 word" | U64 "64 word"
  | F32 "32 word" | F64 "64 word"

text \<open>
  A pointer argument is \<open>None\<close> when it is \<open>NULL\<close>.  \<open>registers\<close> is \<open>Some regs\<close> for a
  pointer to the words \<open>regs\<close>; \<open>result\<close> is \<open>Some v\<close> for a pointer to an object that holds
  \<open>v\<close> when the call starts.  A call yields \<open>Some (rc, result')\<close>: the returned code and
  the contents of the result object when the call ends.  It yields \<open>None\<close> where C leaves
  the behaviour undefined: a read beyond the register words, or a floating-point product
  whose integral part the target integer type cannot represent.
\<close>

type_synonym outcome = "(int \<times> modbus_value_t option) option"

definition reg_at :: "16 word list \<Rightarrow> nat \<Rightarrow> 16 word option" where
  "reg_at regs i = (if i < length regs then Some (regs ! i) else None)"

section \<open>Helper functions\<close>

text \<open>\<open>swap_bytes_16\<close>: \<open>((value & 0xFF) << 8) | ((value >> 8) & 0xFF)\<close>, returned as \<open>uint16_t\<close>.\<close>

definition swap_bytes_16 :: "16 word \<Rightarrow> 16 word" where
  "swap_bytes_16 v = push_bit 8 (v AND 0xFF) OR (drop_bit 8 v AND 0xFF)"

text \<open>\<open>regs_to_bytes\<close>: the loop \<open>for (i = 0; i < count; i++)\<close> storing the high byte of
  \<open>regs[i]\<close> at \<open>bytes[i * 2]\<close> and its low byte at \<open>bytes[i * 2 + 1]\<close>.\<close>

function regs_to_bytes_loop ::
  "16 word list \<Rightarrow> nat \<Rightarrow> nat \<Rightarrow> 8 word list \<Rightarrow> 8 word list option" where
  "regs_to_bytes_loop regs count i bytes =
     (if i < count then
        (case reg_at regs i of
           None \<Rightarrow> None
         | Some r \<Rightarrow>
             if i * 2 + 1 < length bytes then
               regs_to_bytes_loop regs count (i + 1)
                 (bytes[i * 2 := ucast (drop_bit 8 r AND 0xFF), i * 2 + 1 := ucast (r AND 0xFF)])
             else None)
      else Some bytes)"
  by pat_completeness auto
termination
  by (relation "measure (\<lambda>(regs, count, i, bytes). count - i)") auto

definition regs_to_bytes :: "16 word list \<Rightarrow> nat \<Rightarrow> 8 word list \<Rightarrow> 8 word list option" where
  "regs_to_bytes regs count bytes = regs_to_bytes_loop regs count 0 bytes"

text \<open>\<open>bytes_reverse\<close>: the loop \<open>for (i = 0; i < len / 2; i++)\<close> exchanging \<open>bytes[i]\<close>
  and \<open>bytes[len - 1 - i]\<close>.\<close>

function bytes_reverse_loop :: "8 word list \<Rightarrow> nat \<Rightarrow> nat \<Rightarrow> 8 word list option" where
  "bytes_reverse_loop bytes len i =
     (if i < len div 2 then
        (if len - 1 - i < length bytes then
           (let temp = bytes ! i
            in bytes_reverse_loop (bytes[i := bytes ! (len - 1 - i), len - 1 - i := temp])
                 len (i + 1))
         else None)
      else Some bytes)"
  by pat_completeness auto
termination
  by (relation "measure (\<lambda>(bytes, len, i). len div 2 - i)") auto

definition bytes_reverse :: "8 word list \<Rightarrow> nat \<Rightarrow> 8 word list option" where
  "bytes_reverse bytes len = bytes_reverse_loop bytes len 0"

text \<open>The loops \<open>for (i = 0; i < 4; i++) regs[i] = swap_bytes_16(registers[i])\<close> and
  \<open>... = swap_bytes_16(registers[3-i])\<close> of the 64-bit decoders.\<close>

function swap_copy_loop :: "16 word list \<Rightarrow> nat \<Rightarrow> 16 word list \<Rightarrow> 16 word list option" where
  "swap_copy_loop registers i regs =
     (if i < 4 then
        (case reg_at registers i of
           None \<Rightarrow> None
         | Some r \<Rightarrow> swap_copy_loop registers (i + 1) (regs[i := swap_bytes_16 r]))
      else Some regs)"
  by pat_completeness auto
termination
  by (relation "measure (\<lambda>(registers, i, regs). 4 - i)") auto

function swap_copy_rev_loop :: "16 word list \<Rightarrow> nat \<Rightarrow> 16 word list \<Rightarrow> 16 word list option" where
  "swap_copy_rev_loop registers i regs =
     (if i < 4 then
        (case reg_at registers (3 - i) of
           None \<Rightarrow> None
         | Some r \<Rightarrow> swap_copy_rev_loop registers (i + 1) (regs[i := swap_bytes_16 r]))
      else Some regs)"
  by pat_completeness auto
termination
  by (relation "measure (\<lambda>(registers, i, regs). 4 - i)") auto

text \<open>The assembly of the reordered bytes, most significant byte first.\<close>

definition u32_of_bytes :: "8 word list \<Rightarrow> 32 word" where
  "u32_of_bytes bytes =
     push_bit 24 (ucast (bytes ! 0)) OR push_bit 16 (ucast (bytes ! 1)) OR
     push_bit 8 (ucast (bytes ! 2)) OR ucast (bytes ! 3)"

definition u64_of_bytes :: "8 word list \<Rightarrow> 64 word" where
  "u64_of_bytes bytes =
     push_bit 56 (ucast (bytes ! 0)) OR push_bit 48 (ucast (bytes ! 1)) OR
     push_bit 40 (ucast (bytes ! 2)) OR push_bit 32 (ucast (bytes ! 3)) OR
     push_bit 24 (ucast (bytes ! 4)) OR push_bit 16 (ucast (bytes ! 5)) OR
     push_bit 8 (ucast (bytes ! 6)) OR ucast (bytes ! 7)"

section \<open>IEEE-754 arithmetic of the scaling step\<close>

text \<open>
  The decoders multiply by a \<open>double\<close> and convert the product to the result type.  The
  arithmetic is that of C with IEEE-754 binary32 and binary64 in the default rounding mode
  (round to nearest, ties to even).  A format is its exponent and fraction widths.  A
  floating-point datum is a sign and a magnitude: the magnitude is the bit pattern without
  the sign bit, read as an integer, so that the magnitudes below \<open>inf_mag\<close> are the finite
  numbers in increasing order, \<open>inf_mag\<close> is infinity and the magnitudes above are NaNs.
  A finite magnitude decodes to a dyadic number \<open>(M, E)\<close>, standing for \<open>M * 2 ^ E\<close>.
\<close>

datatype fp_format = Fp_format (ebits: nat) (fbits: nat)

definition binary32 :: fp_format where "binary32 = Fp_format 8 23"
definition binary64 :: fp_format where "binary64 = Fp_format 11 52"

definition bias :: "fp_format \<Rightarrow> int" where
  "bias f = 2 ^ (ebits f - 1) - 1"

definition inf_mag :: "fp_format \<Rightarrow> int" where
  "inf_mag f = (2 ^ ebits f - 1) * 2 ^ fbits f"

definition qnan_mag :: "fp_format \<Rightarrow> int" where
  "qnan_mag f = inf_mag f + 2 ^ (fbits f - 1)"

definition decode_mag :: "fp_format \<Rightarrow> int \<Rightarrow> int \<times> int" where
  "decode_mag f m =
     (let ef = m div 2 ^ fbits f; fr = m mod 2 ^ fbits f
      in if ef = 0 then (fr, 1 - bias f - int (fbits f))
         else (2 ^ fbits f + fr, ef - bias f - int (fbits f)))"

text \<open>\<open>shift_round M k\<close> is \<open>M * 2 ^ k\<close> rounded to the nearest integer, ties to even.\<close>

definition shift_round :: "int \<Rightarrow> int \<Rightarrow> int" where
  "shift_round M k =
     (if 0 \<le> k then M * 2 ^ nat k
      else (let s = nat (- k); q = M div 2 ^ s; r = M mod 2 ^ s; h = 2 ^ (s - 1)
            in if h < r \<or> (r = h \<and> odd q) then q + 1 else q))"

text \<open>
  Rounding a non-negative dyadic number to a magnitude of the format: the exponent \<open>e\<close> of
  the leading bit, not below the least normal exponent; the significand in units of
  \<open>2 ^ (e - fbits)\<close>, rounded; a carry out of the significand moves into the exponent
  field, and a result at or beyond \<open>inf_mag\<close> is infinity.
\<close>

definition round_mag :: "fp_format \<Rightarrow> int \<times> int \<Rightarrow> int" where
  "round_mag f d =
     (let M = fst d; E = snd d
      in if M = 0 then 0
         else (let e = max (bitlen M - 1 + E) (1 - bias f);
                   n = shift_round M (E - (e - int (fbits f)))
               in min (inf_mag f) ((e + bias f - 1) * 2 ^ fbits f + n)))"

type_synonym fp = "bool \<times> int"

text \<open>The product of two data.  Which NaN an operation returns is left to the
  implementation by IEEE-754; the model returns the positive quiet NaN with no payload.\<close>

definition fp_mul :: "fp_format \<Rightarrow> fp \<Rightarrow> fp \<Rightarrow> fp" where
  "fp_mul f a b =
     (let s = (fst a \<noteq> fst b); ma = snd a; mb = snd b; i = inf_mag f
      in if i < ma \<or> i < mb then (False, qnan_mag f)
         else if (ma = i \<and> mb = 0) \<or> (ma = 0 \<and> mb = i) then (False, qnan_mag f)
         else if ma = i \<or> mb = i then (s, i)
         else (let da = decode_mag f ma; db = decode_mag f mb
               in (s, round_mag f (fst da * fst db, snd da + snd db))))"

text \<open>Conversion of an integer to the format, and of a datum from format \<open>f\<close> to \<open>g\<close>.\<close>

definition fp_of_int :: "fp_format \<Rightarrow> int \<Rightarrow> fp" where
  "fp_of_int f i = (i < 0, round_mag f (\<bar>i\<bar>, 0))"

definition fp_convert :: "fp_format \<Rightarrow> fp_format \<Rightarrow> fp \<Rightarrow> fp" where
  "fp_convert f g a =
     (if inf_mag f < snd a then (False, qnan_mag g)
      else if snd a = inf_mag f then (fst a, inf_mag g)
      else (fst a, round_mag g (decode_mag f (snd a))))"

text \<open>The integral part of a finite datum (the fraction is discarded); none for an
  infinity or a NaN.\<close>

definition fp_to_int :: "fp_format \<Rightarrow> fp \<Rightarrow> int option" where
  "fp_to_int f a =
     (if inf_mag f \<le> snd a then None
      else (let d = decode_mag f (snd a);
                t = (if 0 \<le> snd d then fst d * 2 ^ nat (snd d)
                     else fst d div 2 ^ nat (- snd d))
            in Some (if fst a then - t else t)))"

text \<open>The bit pattern of a datum and back (\<open>memcpy\<close> between an integer and a \<open>float\<close> or
  \<open>double\<close> object).\<close>

definition fp_of_word :: "'a::len word \<Rightarrow> fp" where
  "fp_of_word w = (bit w (LENGTH('a) - 1), uint (take_bit (LENGTH('a) - 1) w))"

definition word_of_fp :: "fp \<Rightarrow> 'a::len word" where
  "word_of_fp a = (if fst a then push_bit (LENGTH('a) - 1) 1 else 0) OR word_of_int (snd a)"

text \<open>
  \<open>scale_int v scaling_factor\<close> is the C expression \<open>v * scaling_factor\<close> for an integer
  \<open>v\<close>: \<open>v\<close> is converted to \<open>double\<close> and the product is a \<open>double\<close>.  A cast of the product
  to an integer type takes its integral part; the behaviour is undefined when the type
  cannot represent it (C11 6.3.1.4), and the cast is \<open>None\<close> then.
\<close>

definition scale_int :: "int \<Rightarrow> 64 word \<Rightarrow> fp" where
  "scale_int v scaling_factor =
     fp_mul binary64 (fp_of_int binary64 v) (fp_of_word scaling_factor)"

definition cast_unsigned :: "fp \<Rightarrow> 'a::len word option" where
  "cast_unsigned d =
     (case fp_to_int binary64 d of
        None \<Rightarrow> None
      | Some i \<Rightarrow> if 0 \<le> i \<and> i < 2 ^ LENGTH('a) then Some (word_of_int i) else None)"

definition cast_signed :: "fp \<Rightarrow> 'a::len word option" where
  "cast_signed d =
     (case fp_to_int binary64 d of
        None \<Rightarrow> None
      | Some i \<Rightarrow>
          if - (2 ^ (LENGTH('a) - 1)) \<le> i \<and> i < 2 ^ (LENGTH('a) - 1)
          then Some (word_of_int i) else None)"

text \<open>\<open>scale_float32\<close> is \<open>*result = f32_val * scaling_factor\<close>: the \<open>float\<close> is promoted to
  \<open>double\<close>, multiplied, and the product converted to \<open>float\<close> by the assignment.\<close>

definition scale_float32 :: "32 word \<Rightarrow> 64 word \<Rightarrow> 32 word" where
  "scale_float32 f32_val scaling_factor =
     word_of_fp (fp_convert binary64 binary32
       (fp_mul binary64 (fp_convert binary32 binary64 (fp_of_word f32_val))
          (fp_of_word scaling_factor)))"

definition scale_float64 :: "64 word \<Rightarrow> 64 word \<Rightarrow> 64 word" where
  "scale_float64 f64_val scaling_factor =
     word_of_fp (fp_mul binary64 (fp_of_word f64_val) (fp_of_word scaling_factor))"

section \<open>The specialised decoders\<close>

definition modbus_convert_bit_bool ::
  "16 word list option \<Rightarrow> 8 word \<Rightarrow> modbus_value_t option \<Rightarrow> outcome" where
  "modbus_convert_bit_bool registers bit_pos result =
     (case (registers, result) of
        (Some regs, Some old) \<Rightarrow>
          if 15 < bit_pos then Some (MODBUS_CONV_ERR_INVALID_BIT, result)
          else do {
            r0 \<leftarrow> reg_at regs 0;
            Some (MODBUS_CONV_OK,
              Some (Bool_val (drop_bit (unat bit_pos) (ucast r0 :: 32 word) AND 1 = 1)))
          }
      | _ \<Rightarrow> Some (MODBUS_CONV_ERR_NULL_PTR, result))"

definition modbus_convert_int8_signed ::
  "16 word list option \<Rightarrow> 64 word \<Rightarrow> modbus_value_t option \<Rightarrow> outcome" where
  "modbus_convert_int8_signed registers scaling_factor result =
     (case (registers, result) of
        (Some regs, Some old) \<Rightarrow>
          do {
            r0 \<leftarrow> reg_at regs 0;
            let val = (ucast (r0 AND 0xFF) :: 8 word);
            let signed_val = (if 127 < val then ucast val - 256 else ucast val :: 16 word);
            v \<leftarrow> cast_signed (scale_int (sint signed_val) scaling_factor);
            Some (MODBUS_CONV_OK, Some (I8 v))
          }
      | _ \<Rightarrow> Some (MODBUS_CONV_ERR_NULL_PTR, result))"

definition modbus_convert_int8_unsigned ::
  "16 word list option \<Rightarrow> 64 word \<Rightarrow> modbus_value_t option \<Rightarrow> outcome" where
  "modbus_convert_int8_unsigned registers scaling_factor result =
     (case (registers, result) of
        (Some regs, Some old) \<Rightarrow>
          do {
            r0 \<leftarrow> reg_at regs 0;
            v \<leftarrow> cast_unsigned (scale_int (uint (r0 AND 0xFF)) scaling_factor);
            Some (MODBUS_CONV_OK, Some (U8 v))
          }
      | _ \<Rightarrow> Some (MODBUS_CONV_ERR_NULL_PTR, result))"

definition modbus_convert_int16_signed ::
  "16 word list option \<Rightarrow> bool \<Rightarrow> 64 word \<Rightarrow> modbus_value_t option \<Rightarrow> outcome" where
  "modbus_convert_int16_signed registers swap_bytes scaling_factor result =
     (case (registers, result) of
        (Some regs, Some old) \<Rightarrow>
          do {
            r0 \<leftarrow> reg_at regs 0;
            let val = (if swap_bytes then swap_bytes_16 r0 else r0);
            let signed_val = (if 32767 < val then ucast val - 65536 else ucast val :: 32 word);
            v \<leftarrow> cast_signed (scale_int (sint signed_val) scaling_factor);
            Some (MODBUS_CONV_OK, Some (I16 v))
          }
      | _ \<Rightarrow> Some (MODBUS_CONV_ERR_NULL_PTR, result))"

definition modbus_convert_int16_unsigned ::
  "16 word list option \<Rightarrow> bool \<Rightarrow> 64 word \<Rightarrow> modbus_value_t option \<Rightarrow> outcome" where
  "modbus_convert_int16_unsigned registers swap_bytes scaling_factor result =
     (case (registers, result) of
        (Some regs, Some old) \<Rightarrow>
          do {
            r0 \<leftarrow> reg_at regs 0;
            let val = (if swap_bytes then swap_bytes_16 r0 else r0);
            v \<leftarrow> cast_unsigned (scale_int (uint val) scaling_factor);
            Some (MODBUS_CONV_OK, Some (U16 v))
          }
      | _ \<Rightarrow> Some (MODBUS_CONV_ERR_NULL_PTR, result))"

text \<open>
  The \<open>switch\<close> of \<open>modbus_convert_int32\<close>: \<open>Inr\<close> the reordered bytes, or \<open>Inl\<close> the code
  that the \<open>default\<close> branch returns.  The local arrays \<open>regs\<close> and \<open>bytes\<close> are written in
  full before they are read; \<open>bytes\<close> starts as zeros here.
\<close>

definition reorder_int32 :: "int \<Rightarrow> 16 word list \<Rightarrow> (int + 8 word list) option" where
  "reorder_int32 data_type registers =
     (if data_type = MODBUS_INT32_SIGNED_ABCD \<or>
           data_type = MODBUS_INT32_UNSIGNED_ABCD then
         do {
           r0 \<leftarrow> reg_at registers 0;
           r1 \<leftarrow> reg_at registers 1;
           bytes \<leftarrow> regs_to_bytes [r0, r1] 2 [0, 0, 0, 0];
           Some (Inr bytes)
         }
      else if data_type = MODBUS_INT32_SIGNED_DCBA \<or>
           data_type = MODBUS_INT32_UNSIGNED_DCBA then
         do {
           r1 \<leftarrow> reg_at registers 1;
           r0 \<leftarrow> reg_at registers 0;
           bytes \<leftarrow> regs_to_bytes [r1, r0] 2 [0, 0, 0, 0];
           bytes \<leftarrow> bytes_reverse bytes 4;
           Some (Inr bytes)
         }
      else if data_type = MODBUS_INT32_SIGNED_BADC \<or>
           data_type = MODBUS_INT32_UNSIGNED_BADC then
         do {
           r0 \<leftarrow> reg_at registers 0;
           r1 \<leftarrow> reg_at registers 1;
           bytes \<leftarrow> regs_to_bytes [swap_bytes_16 r0, swap_bytes_16 r1] 2 [0, 0, 0, 0];
           Some (Inr bytes)
         }
      else if data_type = MODBUS_INT32_SIGNED_CDAB \<or>
           data_type = MODBUS_INT32_UNSIGNED_CDAB then
         do {
           r1 \<leftarrow> reg_at registers 1;
           r0 \<leftarrow> reg_at registers 0;
           bytes \<leftarrow> regs_to_bytes [r1, r0] 2 [0, 0, 0, 0];
           Some (Inr bytes)
         }
      else Some (Inl MODBUS_CONV_ERR_INVALID_TYPE))"

definition modbus_convert_int32 ::
  "16 word list option \<Rightarrow> int \<Rightarrow> 64 word \<Rightarrow> modbus_value_t option \<Rightarrow> outcome" where
  "modbus_convert_int32 registers data_type scaling_factor result =
     (case (registers, result) of
        (Some regs, Some old) \<Rightarrow>
          do {
            sw \<leftarrow> reorder_int32 data_type regs;
            case sw of
              Inl rc \<Rightarrow> Some (rc, result)
            | Inr bytes \<Rightarrow>
                (let u32_val = u32_of_bytes bytes
                 in if MODBUS_INT32_UNSIGNED_ABCD \<le> data_type \<and>
                       data_type \<le> MODBUS_INT32_UNSIGNED_CDAB
                    then do {
                      v \<leftarrow> cast_unsigned (scale_int (uint u32_val) scaling_factor);
                      Some (MODBUS_CONV_OK, Some (U32 v))
                    }
                    else do {
                      v \<leftarrow> cast_signed (scale_int (sint u32_val) scaling_factor);
                      Some (MODBUS_CONV_OK, Some (I32 v))
                    })
          }
      | _ \<Rightarrow> Some (MODBUS_CONV_ERR_NULL_PTR, result))"

text \<open>The \<open>switch\<close> of \<open>modbus_convert_int64\<close>.\<close>

definition reorder_int64 :: "int \<Rightarrow> 16 word list \<Rightarrow> (int + 8 word list) option" where
  "reorder_int64 data_type registers =
     (if data_type = MODBUS_INT64_SIGNED_ABCDEFGH \<or>
           data_type = MODBUS_INT64_UNSIGNED_ABCDEFGH then
         do {
           bytes \<leftarrow> regs_to_bytes registers 4 [0, 0, 0, 0, 0, 0, 0, 0];
           Some (Inr bytes)
         }
      else if data_type = MODBUS_INT64_SIGNED_HGFEDCBA \<or>
           data_type = MODBUS_INT64_UNSIGNED_HGFEDCBA then
         do {
           r3 \<leftarrow> reg_at registers 3;
           r2 \<leftarrow> reg_at registers 2;
           r1 \<leftarrow> reg_at registers 1;
           r0 \<leftarrow> reg_at registers 0;
           bytes \<leftarrow> regs_to_bytes [r3, r2, r1, r0] 4 [0, 0, 0, 0, 0, 0, 0, 0];
           bytes \<leftarrow> bytes_reverse bytes 8;
           Some (Inr bytes)
         }
      else if data_type = MODBUS_INT64_SIGNED_BADCFEHG \<or>
           data_type = MODBUS_INT64_UNSIGNED_BADCFEHG then
         do {
           regs \<leftarrow> swap_copy_loop registers 0 [0, 0, 0, 0];
           bytes \<leftarrow> regs_to_bytes regs 4 [0, 0, 0, 0, 0, 0, 0, 0];
           Some (Inr bytes)
         }
      else if data_type = MODBUS_INT64_SIGNED_CDABGHEF \<or>
           data_type = MODBUS_INT64_UNSIGNED_CDABGHEF then
         do {
           r1 \<leftarrow> reg_at registers 1;
           r0 \<leftarrow> reg_at registers 0;
           r3 \<leftarrow> reg_at registers 3;
           r2 \<leftarrow> reg_at registers 2;
           bytes \<leftarrow> regs_to_bytes [r1, r0, r3, r2] 4 [0, 0, 0, 0, 0, 0, 0, 0];
           Some (Inr bytes)
         }
      else if data_type = MODBUS_INT64_SIGNED_DCBAHGFE \<or>
           data_type = MODBUS_INT64_UNSIGNED_DCBAHGFE then
         do {
           regs \<leftarrow> swap_copy_rev_loop registers 0 [0, 0, 0, 0];
           bytes \<leftarrow> regs_to_bytes regs 4 [0, 0, 0, 0, 0, 0, 0, 0];
           bytes \<leftarrow> bytes_reverse bytes 8;
           Some (Inr bytes)
         }
      else if data_type = MODBUS_INT64_SIGNED_GHEFCDAB \<or>
           data_type = MODBUS_INT64_UNSIGNED_GHEFCDAB then
         do {
           r3 \<leftarrow> reg_at registers 3;
           r2 \<leftarrow> reg_at registers 2;
           r1 \<leftarrow> reg_at registers 1;
           r0 \<leftarrow> reg_at registers 0;
           bytes \<leftarrow> regs_to_bytes [r3, r2, r1, r0] 4 [0, 0, 0, 0, 0, 0, 0, 0];
           bytes \<leftarrow> bytes_reverse bytes 8;
           Some (Inr bytes)
         }
      else if data_type = MODBUS_INT64_SIGNED_FEHGBADC \<or>
           data_type = MODBUS_INT64_UNSIGNED_FEHGBADC then
         do {
           r2 \<leftarrow> reg_at registers 2;
           r3 \<leftarrow> reg_at registers 3;
           r0 \<leftarrow> reg_at registers 0;
           r1 \<leftarrow> reg_at registers 1;
           bytes \<leftarrow> regs_to_bytes [r2, r3, r0, r1] 4 [0, 0, 0, 0, 0, 0, 0, 0];
           bytes \<leftarrow> bytes_reverse bytes 8;
           Some (Inr bytes)
         }
      else if data_type = MODBUS_INT64_SIGNED_EFGHABCD \<or>
           data_type = MODBUS_INT64_UNSIGNED_EFGHABCD then
         do {
           r2 \<leftarrow> reg_at registers 2;
           r3 \<leftarrow> reg_at registers 3;
           r0 \<leftarrow> reg_at registers 0;
           r1 \<leftarrow> reg_at registers 1;
           bytes \<leftarrow> regs_to_bytes [swap_bytes_16 r2, swap_bytes_16 r3, swap_bytes_16 r0, swap_bytes_16 r1] 4 [0, 0, 0, 0, 0, 0, 0, 0];
           bytes \<leftarrow> bytes_reverse bytes 8;
           Some (Inr bytes)
         }
      else Some (Inl MODBUS_CONV_ERR_INVALID_TYPE))"

definition modbus_convert_int64 ::
  "16 word list option \<Rightarrow> int \<Rightarrow> 64 word \<Rightarrow> modbus_value_t option \<Rightarrow> outcome" where
  "modbus_convert_int64 registers data_type scaling_factor result =
     (case (registers, result) of
        (Some regs, Some old) \<Rightarrow>
          do {
            sw \<leftarrow> reorder_int64 data_type regs;
            case sw of
              Inl rc \<Rightarrow> Some (rc, result)
            | Inr bytes \<Rightarrow>
                (let u64_val = u64_of_bytes bytes
                 in if MODBUS_INT64_UNSIGNED_ABCDEFGH \<le> data_type \<and>
                       data_type \<le> MODBUS_INT64_UNSIGNED_EFGHABCD
                    then do {
                      v \<leftarrow> cast_unsigned (scale_int (uint u64_val) scaling_factor);
                      Some (MODBUS_CONV_OK, Some (U64 v))
                    }
                    else do {
                      v \<leftarrow> cast_signed (scale_int (sint u64_val) scaling_factor);
                      Some (MODBUS_CONV_OK, Some (I64 v))
                    })
          }
      | _ \<Rightarrow> Some (MODBUS_CONV_ERR_NULL_PTR, result))"

text \<open>The \<open>switch\<close> of \<open>modbus_convert_float32\<close>, and the decoder: the assembled word is
  copied into a \<open>float\<close> and scaled.\<close>

definition reorder_float32 :: "int \<Rightarrow> 16 word list \<Rightarrow> (int + 8 word list) option" where
  "reorder_float32 data_type registers =
     (if data_type = MODBUS_IEEE_FLOAT32_ABCD then
         do {
           r0 \<leftarrow> reg_at registers 0;
           r1 \<leftarrow> reg_at registers 1;
           bytes \<leftarrow> regs_to_bytes [r0, r1] 2 [0, 0, 0, 0];
           Some (Inr bytes)
         }
      else if data_type = MODBUS_IEEE_FLOAT32_CDAB then
         do {
           r1 \<leftarrow> reg_at registers 1;
           r0 \<leftarrow> reg_at registers 0;
           bytes \<leftarrow> regs_to_bytes [r1, r0] 2 [0, 0, 0, 0];
           Some (Inr bytes)
         }
      else if data_type = MODBUS_IEEE_FLOAT32_DCBA then
         do {
           r1 \<leftarrow> reg_at registers 1;
           r0 \<leftarrow> reg_at registers 0;
           bytes \<leftarrow> regs_to_bytes [r1, r0] 2 [0, 0, 0, 0];
           bytes \<leftarrow> bytes_reverse bytes 4;
           Some (Inr bytes)
         }
      else if data_type = MODBUS_IEEE_FLOAT32_BADC then
         do {
           r0 \<leftarrow> reg_at registers 0;
           r1 \<leftarrow> reg_at registers 1;
           bytes \<leftarrow> regs_to_bytes [swap_bytes_16 r0, swap_bytes_16 r1] 2 [0, 0, 0, 0];
           Some (Inr bytes)
         }
      else Some (Inl MODBUS_CONV_ERR_INVALID_TYPE))"

definition modbus_convert_float32 ::
  "16 word list option \<Rightarrow> int \<Rightarrow> 64 word \<Rightarrow> modbus_value_t option \<Rightarrow> outcome" where
  "modbus_convert_float32 registers data_type scaling_factor result =
     (case (registers, result) of
        (Some regs, Some old) \<Rightarrow>
          do {
            sw \<leftarrow> reorder_float32 data_type regs;
            case sw of
              Inl rc \<Rightarrow> Some (rc, result)
            | Inr bytes \<Rightarrow>
                (let u32_val = u32_of_bytes bytes
                 in Some (MODBUS_CONV_OK, Some (F32 (scale_float32 u32_val scaling_factor))))
          }
      | _ \<Rightarrow> Some (MODBUS_CONV_ERR_NULL_PTR, result))"

text \<open>The \<open>switch\<close> of \<open>modbus_convert_float64\<close>, and the decoder.\<close>

definition reorder_float64 :: "int \<Rightarrow> 16 word list \<Rightarrow> (int + 8 word list) option" where
  "reorder_float64 data_type registers =
     (if data_type = MODBUS_IEEE_FLOAT64_ABCDEFGH then
         do {
           bytes \<leftarrow> regs_to_bytes registers 4 [0, 0, 0, 0, 0, 0, 0, 0];
           Some (Inr bytes)
         }
      else if data_type = MODBUS_IEEE_FLOAT64_HGFEDCBA then
         do {
           r3 \<leftarrow> reg_at registers 3;
           r2 \<leftarrow> reg_at registers 2;
           r1 \<leftarrow> reg_at registers 1;
           r0 \<leftarrow> reg_at registers 0;
           bytes \<leftarrow> regs_to_bytes [r3, r2, r1, r0] 4 [0, 0, 0, 0, 0, 0, 0, 0];
           bytes \<leftarrow> bytes_reverse bytes 8;
           Some (Inr bytes)
         }
      else if data_type = MODBUS_IEEE_FLOAT64_BADCFEHG then
         do {
           regs \<leftarrow> swap_copy_loop registers 0 [0, 0, 0, 0];
           bytes \<leftarrow> regs_to_bytes regs 4 [0, 0, 0, 0, 0, 0, 0, 0];
           Some (Inr bytes)
         }
      else if data_type = MODBUS_IEEE_FLOAT64_CDABGHEF then
         do {
           r1 \<leftarrow> reg_at registers 1;
           r0 \<leftarrow> reg_at registers 0;
           r3 \<leftarrow> reg_at registers 3;
           r2 \<leftarrow> reg_at registers 2;
           bytes \<leftarrow> regs_to_bytes [r1, r0, r3, r2] 4 [0, 0, 0, 0, 0, 0, 0, 0];
           Some (Inr bytes)
         }
      else if data_type = MODBUS_IEEE_FLOAT64_DCBAHGFE then
         do {
           regs \<leftarrow> swap_copy_rev_loop registers 0 [0, 0, 0, 0];
           bytes \<leftarrow> regs_to_bytes regs 4 [0, 0, 0, 0, 0, 0, 0, 0];
           bytes \<leftarrow> bytes_reverse bytes 8;
           Some (Inr bytes)
         }
      else if data_type = MODBUS_IEEE_FLOAT64_GHEFCDAB then
         do {
           r3 \<leftarrow> reg_at registers 3;
           r2 \<leftarrow> reg_at registers 2;
           r1 \<leftarrow> reg_at registers 1;
           r0 \<leftarrow> reg_at registers 0;
           bytes \<leftarrow> regs_to_bytes [r3, r2, r1, r0] 4 [0, 0, 0, 0, 0, 0, 0, 0];
           bytes \<leftarrow> bytes_reverse bytes 8;
           Some (Inr bytes)
         }
      else if data_type = MODBUS_IEEE_FLOAT64_FEHGBADC then
         do {
           r2 \<leftarrow> reg_at registers 2;
           r3 \<leftarrow> reg_at registers 3;
           r0 \<leftarrow> reg_at registers 0;
           r1 \<leftarrow> reg_at registers 1;
           bytes \<leftarrow> regs_to_bytes [r2, r3, r0, r1] 4 [0, 0, 0, 0, 0, 0, 0, 0];
           bytes \<leftarrow> bytes_reverse bytes 8;
           Some (Inr bytes)
         }
      else if data_type = MODBUS_IEEE_FLOAT64_EFGHABCD then
         do {
           r2 \<leftarrow> reg_at registers 2;
           r3 \<leftarrow> reg_at registers 3;
           r0 \<leftarrow> reg_at registers 0;
           r1 \<leftarrow> reg_at registers 1;
           bytes \<leftarrow> regs_to_bytes [swap_bytes_16 r2, swap_bytes_16 r3, swap_bytes_16 r0, swap_bytes_16 r1] 4 [0, 0, 0, 0, 0, 0, 0, 0];
           bytes \<leftarrow> bytes_reverse bytes 8;
           Some (Inr bytes)
         }
      else Some (Inl MODBUS_CONV_ERR_INVALID_TYPE))"

definition modbus_convert_float64 ::
  "16 word list option \<Rightarrow> int \<Rightarrow> 64 word \<Rightarrow> modbus_value_t option \<Rightarrow> outcome" where
  "modbus_convert_float64 registers data_type scaling_factor result =
     (case (registers, result) of
        (Some regs, Some old) \<Rightarrow>
          do {
            sw \<leftarrow> reorder_float64 data_type regs;
            case sw of
              Inl rc \<Rightarrow> Some (rc, result)
            | Inr bytes \<Rightarrow>
                (let u64_val = u64_of_bytes bytes
                 in Some (MODBUS_CONV_OK, Some (F64 (scale_float64 u64_val scaling_factor))))
          }
      | _ \<Rightarrow> Some (MODBUS_CONV_ERR_NULL_PTR, result))"

section \<open>The generic entry point\<close>

definition modbus_convert ::
  "16 word list option \<Rightarrow> nat \<Rightarrow> int \<Rightarrow> 8 word \<Rightarrow> 64 word \<Rightarrow> modbus_value_t option \<Rightarrow> outcome"
  where
  "modbus_convert registers reg_count data_type bit_pos scaling_factor result =
     (if registers = None \<or> result = None then Some (MODBUS_CONV_ERR_NULL_PTR, result)
      else if reg_count = 0 then Some (MODBUS_CONV_ERR_INSUFF_REGS, result)
      else if data_type = MODBUS_BIT_BOOLEAN then
        modbus_convert_bit_bool registers bit_pos result
      else if data_type = MODBUS_INT8_SIGNED then
        modbus_convert_int8_signed registers scaling_factor result
      else if data_type = MODBUS_INT8_UNSIGNED then
        modbus_convert_int8_unsigned registers scaling_factor result
      else if data_type = MODBUS_INT16_SIGNED_AB then
        modbus_convert_int16_signed registers False scaling_factor result
      else if data_type = MODBUS_INT16_SIGNED_BA then
        modbus_convert_int16_signed registers True scaling_factor result
      else if data_type = MODBUS_INT16_UNSIGNED_AB then
        modbus_convert_int16_unsigned registers False scaling_factor result
      else if data_type = MODBUS_INT16_UNSIGNED_BA then
        modbus_convert_int16_unsigned registers True scaling_factor result
      else if MODBUS_INT32_SIGNED_ABCD \<le> data_type \<and> data_type \<le> MODBUS_INT32_UNSIGNED_CDAB then
        modbus_convert_int32 registers data_type scaling_factor result
      else if MODBUS_INT64_SIGNED_ABCDEFGH \<le> data_type \<and>
              data_type \<le> MODBUS_INT64_UNSIGNED_EFGHABCD then
        modbus_convert_int64 registers data_type scaling_factor result
      else if MODBUS_IEEE_FLOAT32_ABCD \<le> data_type \<and> data_type \<le> MODBUS_IEEE_FLOAT32_BADC then
        modbus_convert_float32 registers data_type scaling_factor result
      else if MODBUS_IEEE_FLOAT64_ABCDEFGH \<le> data_type \<and>
              data_type \<le> MODBUS_IEEE_FLOAT64_EFGHABCD then
        modbus_convert_float64 registers data_type scaling_factor result
      else Some (MODBUS_CONV_ERR_INVALID_TYPE, result))"

section \<open>Vocabulary of the specification\<close>

text \<open>The two bytes of a register word, and the word with its two bytes exchanged.\<close>

definition hi_byte :: "16 word \<Rightarrow> 8 word" where
  "hi_byte r = ucast (drop_bit 8 r)"

definition lo_byte :: "16 word \<Rightarrow> 8 word" where
  "lo_byte r = ucast r"

definition byte_swapped :: "16 word \<Rightarrow> 16 word" where
  "byte_swapped r = word_cat (lo_byte r) (hi_byte r)"

text \<open>The registers that hold a 32-bit pattern as two big-endian words.\<close>

definition encode_be32 :: "32 word \<Rightarrow> 16 word list" where
  "encode_be32 w = [ucast (drop_bit 16 w), ucast w]"

text \<open>The value of a byte sequence read most significant byte first.\<close>

definition msb_first :: "8 word list \<Rightarrow> 'a::len word" where
  "msb_first bytes = foldl (\<lambda>acc b. acc * 256 + ucast b) 0 bytes"

text \<open>
  The table of the 64-bit patterns as the specification gives it: for each pattern the
  source word of each destination slot (indices from 0), whether each selected word has
  its bytes swapped, and whether the whole 8-byte sequence is reversed.
\<close>

datatype pattern64 =
  ABCDEFGH | HGFEDCBA | BADCFEHG | CDABGHEF | DCBAHGFE | GHEFCDAB | FEHGBADC | EFGHABCD

fun word_order :: "pattern64 \<Rightarrow> nat list" where
  "word_order ABCDEFGH = [0, 1, 2, 3]"
| "word_order HGFEDCBA = [3, 2, 1, 0]"
| "word_order BADCFEHG = [0, 1, 2, 3]"
| "word_order CDABGHEF = [1, 0, 3, 2]"
| "word_order DCBAHGFE = [3, 2, 1, 0]"
| "word_order GHEFCDAB = [3, 2, 1, 0]"
| "word_order FEHGBADC = [2, 3, 0, 1]"
| "word_order EFGHABCD = [2, 3, 0, 1]"

fun per_word_swap :: "pattern64 \<Rightarrow> bool" where
  "per_word_swap ABCDEFGH = False"
| "per_word_swap HGFEDCBA = False"
| "per_word_swap BADCFEHG = True"
| "per_word_swap CDABGHEF = False"
| "per_word_swap DCBAHGFE = True"
| "per_word_swap GHEFCDAB = False"
| "per_word_swap FEHGBADC = False"
| "per_word_swap EFGHABCD = True"

fun full_reversal :: "pattern64 \<Rightarrow> bool" where
  "full_reversal ABCDEFGH = False"
| "full_reversal HGFEDCBA = True"
| "full_reversal BADCFEHG = False"
| "full_reversal CDABGHEF = False"
| "full_reversal DCBAHGFE = True"
| "full_reversal GHEFCDAB = True"
| "full_reversal FEHGBADC = True"
| "full_reversal EFGHABCD = True"

definition spec_int64_bytes :: "pattern64 \<Rightarrow> 16 word list \<Rightarrow> 8 word list" where
  "spec_int64_bytes p registers =
     (let selected = map (\<lambda>i. registers ! i) (word_order p);
          swapped = (if per_word_swap p then map byte_swapped selected else selected);
          serial = concat (map (\<lambda>w. [hi_byte w, lo_byte w]) swapped)
      in if full_reversal p then rev serial else serial)"

definition spec_int64_raw :: "pattern64 \<Rightarrow> 16 word list \<Rightarrow> 64 word" where
  "spec_int64_raw p registers = msb_first (spec_int64_bytes p registers)"

fun int64_signed_tag :: "pattern64 \<Rightarrow> int" where
  "int64_signed_tag ABCDEFGH = MODBUS_INT64_SIGNED_ABCDEFGH"
| "int64_signed_tag HGFEDCBA = MODBUS_INT64_SIGNED_HGFEDCBA"
| "int64_signed_tag BADCFEHG = MODBUS_INT64_SIGNED_BADCFEHG"
| "int64_signed_tag CDABGHEF = MODBUS_INT64_SIGNED_CDABGHEF"
| "int64_signed_tag DCBAHGFE = MODBUS_INT64_SIGNED_DCBAHGFE"
| "int64_signed_tag GHEFCDAB = MODBUS_INT64_SIGNED_GHEFCDAB"
| "int64_signed_tag FEHGBADC = MODBUS_INT64_SIGNED_FEHGBADC"
| "int64_signed_tag EFGHABCD = MODBUS_INT64_SIGNED_EFGHABCD"

fun int64_unsigned_tag :: "pattern64 \<Rightarrow> int" where
  "int64_unsigned_tag ABCDEFGH = MODBUS_INT64_UNSIGNED_ABCDEFGH"
| "int64_unsigned_tag HGFEDCBA = MODBUS_INT64_UNSIGNED_HGFEDCBA"
| "int64_unsigned_tag BADCFEHG = MODBUS_INT64_UNSIGNED_BADCFEHG"
| "int64_unsigned_tag CDABGHEF = MODBUS_INT64_UNSIGNED_CDABGHEF"
| "int64_unsigned_tag DCBAHGFE = MODBUS_INT64_UNSIGNED_DCBAHGFE"
| "int64_unsigned_tag GHEFCDAB = MODBUS_INT64_UNSIGNED_GHEFCDAB"
| "int64_unsigned_tag FEHGBADC = MODBUS_INT64_UNSIGNED_FEHGBADC"
| "int64_unsigned_tag EFGHABCD = MODBUS_INT64_UNSIGNED_EFGHABCD"

text \<open>
  The byte sequence of "reversed word order followed by full reversal": the words taken
  last to first, each serialised big-endian, and the whole sequence reversed.
\<close>

definition reversed_words_reversed_bytes :: "16 word list \<Rightarrow> 8 word list" where
  "reversed_words_reversed_bytes registers =
     rev (concat (map (\<lambda>w. [hi_byte w, lo_byte w]) (rev registers)))"

text \<open>The \<open>double\<close> constants 1.0 and 2.0, and the NaN patterns of binary32.\<close>

definition double_1_0 :: "64 word" where "double_1_0 = 0x3FF0000000000000"
definition double_2_0 :: "64 word" where "double_2_0 = 0x4000000000000000"

definition is_nan32 :: "32 word \<Rightarrow> bool" where
  "is_nan32 w = (inf_mag binary32 < snd (fp_of_word w))"

section \<open>Bytes, words and the helper loops\<close>

lemma mask_FF: "(0xFF :: 'a::len word) = mask 8"
  by (simp add: mask_eq_exp_minus_1)

lemma src_hi: "ucast (drop_bit 8 r AND 0xFF) = hi_byte r"
  unfolding hi_byte_def mask_FF by (rule bit_word_eqI) (auto simp: bit_simps)

lemma src_lo: "ucast (r AND 0xFF) = lo_byte r"
  unfolding lo_byte_def mask_FF by (rule bit_word_eqI) (auto simp: bit_simps)

lemma lo_drop: "lo_byte (drop_bit 8 r) = hi_byte r"
  by (simp add: lo_byte_def hi_byte_def)

lemma regs_to_bytes_2:
  "regs_to_bytes [a, b] 2 [0, 0, 0, 0] = Some [hi_byte a, lo_byte a, hi_byte b, lo_byte b]"
  by (simp add: regs_to_bytes_def reg_at_def src_lo lo_drop)

lemma regs_to_bytes_4:
  "regs_to_bytes [a, b, c, d] 4 [0, 0, 0, 0, 0, 0, 0, 0] =
     Some [hi_byte a, lo_byte a, hi_byte b, lo_byte b, hi_byte c, lo_byte c, hi_byte d, lo_byte d]"
  by (simp add: regs_to_bytes_def reg_at_def src_lo lo_drop)

lemma bytes_reverse_4: "bytes_reverse [a, b, c, d] 4 = Some [d, c, b, a]"
  by (simp add: bytes_reverse_def)

lemma bytes_reverse_8:
  "bytes_reverse [a, b, c, d, e, f, g, h] 8 = Some [h, g, f, e, d, c, b, a]"
  by (simp add: bytes_reverse_def)

lemma swap_copy_loop_4:
  "swap_copy_loop [a, b, c, d] 0 [0, 0, 0, 0] =
     Some [swap_bytes_16 a, swap_bytes_16 b, swap_bytes_16 c, swap_bytes_16 d]"
  by (simp add: reg_at_def)

lemma swap_copy_rev_loop_4:
  "swap_copy_rev_loop [a, b, c, d] 0 [0, 0, 0, 0] =
     Some [swap_bytes_16 d, swap_bytes_16 c, swap_bytes_16 b, swap_bytes_16 a]"
  by (simp add: reg_at_def)

lemma swap_bytes_16_eq: "swap_bytes_16 r = byte_swapped r"
  unfolding hi_byte_def lo_byte_def swap_bytes_16_def byte_swapped_def mask_FF
  by (rule bit_word_eqI) (auto simp: bit_simps)

lemma hi_byte_swapped: "hi_byte (byte_swapped r) = lo_byte r"
  unfolding hi_byte_def lo_byte_def byte_swapped_def
  by (rule bit_word_eqI) (auto simp: bit_simps)

lemma lo_byte_swapped: "lo_byte (byte_swapped r) = hi_byte r"
  unfolding hi_byte_def lo_byte_def byte_swapped_def
  by (rule bit_word_eqI) (auto simp: bit_simps)

lemma shift_or_add8:
  fixes x :: "'a::len word"
  shows "push_bit 8 x OR ucast (b :: 8 word) = x * 256 + ucast b"
proof -
  have "push_bit 8 x OR ucast b = push_bit 8 x + ucast b"
    by (rule disjunctive_add [symmetric]) (auto simp: bit_simps dest: bit_imp_le_length)
  then show ?thesis by (simp add: push_bit_eq_mult)
qed

lemma u32_msb: "u32_of_bytes [a, b, c, d] = msb_first [a, b, c, d]"
  by (simp add: u32_of_bytes_def msb_first_def flip: shift_or_add8)
     (rule bit_word_eqI; auto simp: bit_simps)

lemma u64_msb: "u64_of_bytes [a, b, c, d, e, f, g, h] = msb_first [a, b, c, d, e, f, g, h]"
  by (simp add: u64_of_bytes_def msb_first_def flip: shift_or_add8)
     (rule bit_word_eqI; auto simp: bit_simps)

lemma bit_test:
  "(drop_bit n (ucast (r :: 16 word) :: 32 word) AND 1 = 1) = bit r n" if "n \<le> 15"
proof -
  have "(x AND 1 = 1) = bit x 0" for x :: "32 word"
    by (simp add: and_one_eq bit_0 odd_iff_mod_2_eq_one)
  then show ?thesis using that by (simp add: bit_simps)
qed

section \<open>Rounding: representable numbers are not changed\<close>

lemma bitlen_lt_pow: "0 < M \<Longrightarrow> M < 2 ^ t \<Longrightarrow> bitlen M \<le> int t"
  by (simp add: bitlen_le_iff_power)

lemma small_of_div0: "0 \<le> (m::int) \<Longrightarrow> m div 2 ^ t = 0 \<Longrightarrow> m < 2 ^ t"
  by (auto simp: zdiv_eq_0_iff)

lemma round_mag_nonzero:
  "M \<noteq> 0 \<Longrightarrow> max (bitlen M - 1 + E) (1 - bias f) = e \<Longrightarrow>
   round_mag f (M, E) =
     min (inf_mag f) ((e + bias f - 1) * 2 ^ fbits f + shift_round M (E - (e - int (fbits f))))"
  by (simp add: round_mag_def Let_def)

lemma shift_round_0: "shift_round M 0 = M"
  by (simp add: shift_round_def)

lemma round_mag_decode_sub:
  assumes "0 \<le> m" "m < inf_mag f" "m div 2 ^ fbits f = 0"
  shows "round_mag f (decode_mag f m) = m"
proof (cases "m = 0")
  case True then show ?thesis by (simp add: decode_mag_def round_mag_def Let_def)
next
  case False
  have lt: "m < 2 ^ fbits f" using assms(1,3) by (rule small_of_div0)
  then have md: "m mod 2 ^ fbits f = m" using assms(1) by simp
  from False have "0 < m" using assms(1) by simp
  then have "bitlen m \<le> int (fbits f)" using lt by (rule bitlen_lt_pow)
  then have e: "max (bitlen m - 1 + (1 - bias f - int (fbits f))) (1 - bias f) = 1 - bias f"
    by simp
  have d: "decode_mag f m = (m, 1 - bias f - int (fbits f))"
    using assms(3) md by (simp add: decode_mag_def)
  show ?thesis
    unfolding d round_mag_nonzero [OF False e] using assms(2)
    by (simp add: shift_round_0)
qed

lemma round_mag_decode_norm:
  assumes "0 \<le> m" "m < inf_mag f" "m div 2 ^ fbits f \<noteq> 0"
  shows "round_mag f (decode_mag f m) = m"
proof -
  let ?t = "fbits f"
  let ?ef = "m div 2 ^ ?t" and ?fr = "m mod 2 ^ ?t"
  let ?M = "2 ^ ?t + ?fr" and ?E = "?ef - bias f - int ?t"
  have ef: "1 \<le> ?ef" using assms(1,3)
    by (smt (verit) pos_imp_zdiv_nonneg_iff zero_less_numeral zero_less_power)
  have fr: "0 \<le> ?fr" "?fr < 2 ^ ?t" by simp_all
  have bl: "bitlen ?M = int ?t + 1"
    using fr by (simp add: bitlen_twopow_add_eq)
  have pos: "?M \<noteq> 0" using fr
    by (smt (verit) zero_less_power)
  have e: "max (bitlen ?M - 1 + ?E) (1 - bias f) = ?ef - bias f"
    using ef by (simp add: bl)
  have m: "?ef * 2 ^ ?t + ?fr = m" by (rule div_mult_mod_eq)
  have m': "(?ef - bias f + bias f - 1) * 2 ^ ?t + ?M = m"
    using m by (simp add: algebra_simps)
  have d: "decode_mag f m = (?M, ?E)"
    using assms(3) by (simp add: decode_mag_def)
  have s: "?E - (?ef - bias f - int ?t) = 0" by simp
  show ?thesis
    unfolding d round_mag_nonzero [OF pos e] s shift_round_0 m' using assms(2)
    by simp
qed

lemma round_mag_decode:
  "0 \<le> m \<Longrightarrow> m < inf_mag f \<Longrightarrow> round_mag f (decode_mag f m) = m"
  using round_mag_decode_sub round_mag_decode_norm by blast

lemma shift_round_scale:
  assumes "0 \<le> M"
  shows "shift_round (M * 2 ^ k) (c - int k) = shift_round M c"
proof -
  consider "int k \<le> c" | "0 \<le> c" "c < int k" | "c < 0" by linarith
  then show ?thesis
  proof cases
    case 1
    then have "nat c = nat (c - int k) + k" by simp
    then show ?thesis using 1 by (simp add: shift_round_def power_add)
  next
    case 2
    then have k: "k = nat (int k - c) + nat c" by simp
    have e: "M * 2 ^ k = (M * 2 ^ nat c) * 2 ^ nat (int k - c)"
      by (subst k) (simp add: power_add)
    have q: "M * 2 ^ k div 2 ^ nat (int k - c) = M * 2 ^ nat c"
      unfolding e by simp
    have r: "M * 2 ^ k mod 2 ^ nat (int k - c) = 0"
      unfolding e by simp
    show ?thesis using 2 q r by (simp add: shift_round_def Let_def)
  next
    case 3
    let ?s = "nat (- c)"
    have s: "nat (int k - c) = ?s + k" "0 < ?s" using 3 by simp_all
    have q: "M * 2 ^ k div 2 ^ (?s + k) = M div 2 ^ ?s"
      by (simp add: power_add)
    have r: "M * 2 ^ k mod 2 ^ (?s + k) = (M mod 2 ^ ?s) * 2 ^ k"
      by (simp add: power_add mult_mod_left mult.commute)
    have h: "(2::int) ^ (?s + k - 1) = 2 ^ (?s - 1) * 2 ^ k"
      using s(2) by (simp flip: power_add)
    show ?thesis using 3 s(1) q r h
      by (simp add: shift_round_def Let_def)
  qed
qed

lemma round_mag_scale:
  assumes "0 \<le> M"
  shows "round_mag f (M * 2 ^ k, E - int k) = round_mag f (M, E)"
proof (cases "M = 0")
  case True then show ?thesis by (simp add: round_mag_def)
next
  case False
  then have "0 < M" using assms by simp
  then have bl: "bitlen (M * 2 ^ k) = bitlen M + int k" by simp
  have "shift_round (M * 2 ^ k) (E - int k - (max (bitlen M + int k - 1 + (E - int k)) (1 - bias f) - int (fbits f)))
      = shift_round M (E - (max (bitlen M - 1 + E) (1 - bias f) - int (fbits f)))"
    using shift_round_scale [OF assms, of k "E - (max (bitlen M - 1 + E) (1 - bias f) - int (fbits f))"]
    by (simp add: algebra_simps)
  then show ?thesis using False bl
    by (simp add: round_mag_def Let_def algebra_simps)
qed


lemma two_bias: "1 \<le> ebits f \<Longrightarrow> 2 * bias f + 2 = 2 ^ ebits f"
  by (cases "ebits f") (simp_all add: bias_def)

lemma div_mod_digit:
  fixes q d r :: int
  assumes "0 \<le> r" "r < d"
  shows "(q * d + r) div d = q" "(q * d + r) mod d = r"
  using assms by (simp_all add: div_pos_pos_trivial mod_pos_pos_trivial)

lemma round_mag_repr:
  assumes M: "0 < M" and L: "bitlen M \<le> int (fbits f) + 1"
    and lo: "1 - bias f \<le> bitlen M - 1 + E" and hi: "bitlen M - 1 + E \<le> bias f"
    and w: "1 \<le> ebits f"
  shows "0 \<le> round_mag f (M, E) \<and> round_mag f (M, E) < inf_mag f \<and>
         decode_mag f (round_mag f (M, E)) =
           (M * 2 ^ nat (int (fbits f) + 1 - bitlen M), E - (int (fbits f) + 1 - bitlen M))"
proof -
  let ?t = "fbits f"
  let ?j = "nat (int ?t + 1 - bitlen M)"
  let ?n = "M * 2 ^ ?j"
  let ?ef = "bitlen M - 1 + E + bias f"
  let ?m = "?ef * 2 ^ ?t + (?n - 2 ^ ?t)"
  have j: "int ?j = int ?t + 1 - bitlen M" using L by simp
  have Lpos: "1 \<le> bitlen M" using M by (smt (verit) bitlen_eq_zero_iff bitlen_nonneg)
  have b: "2 ^ nat (bitlen M - 1) \<le> M" "M < 2 ^ nat (bitlen M)"
    using bitlen_bounds [OF M] by simp_all
  have t1: "nat (bitlen M - 1) + ?j = ?t" using L Lpos by simp
  have t2: "nat (bitlen M) + ?j = ?t + 1" using L Lpos by simp
  have "2 ^ nat (bitlen M - 1) * 2 ^ ?j \<le> ?n" using b(1) by simp
  then have n1: "2 ^ ?t \<le> ?n" by (simp flip: power_add add: t1)
  have "?n < 2 ^ nat (bitlen M) * 2 ^ ?j" using b(2) by simp
  then have n2: "?n < 2 * 2 ^ ?t" by (simp flip: power_add add: t2)
  have ef1: "1 \<le> ?ef" using lo by simp
  have ef2: "?ef \<le> 2 ^ ebits f - 2" using hi two_bias [OF w] by simp
  have fr: "0 \<le> ?n - 2 ^ ?t" "?n - 2 ^ ?t < 2 ^ ?t" using n1 n2 by simp_all
  have dv: "?m div 2 ^ ?t = ?ef" using fr by (rule div_mod_digit)
  have md: "?m mod 2 ^ ?t = ?n - 2 ^ ?t" using fr by (rule div_mod_digit)
  have dec: "decode_mag f ?m = (?n, E - int ?j)"
    unfolding decode_mag_def dv md using ef1 j by (simp add: Let_def)
  have m0: "0 \<le> ?m" using ef1 fr(1) by simp
  have "?m < (?ef + 1) * 2 ^ ?t" using fr(2) by (simp add: algebra_simps)
  also have "\<dots> \<le> (2 ^ ebits f - 1) * 2 ^ ?t"
    using ef2 by (intro mult_right_mono) simp_all
  finally have m1: "?m < inf_mag f" by (simp add: inf_mag_def)
  have "round_mag f (M, E) = round_mag f (?n, E - int ?j)"
    using round_mag_scale [of M f ?j E] M by simp
  also have "\<dots> = ?m" using round_mag_decode [OF m0 m1] dec by simp
  finally have r: "round_mag f (M, E) = ?m" .
  show ?thesis unfolding r using m0 m1 dec j by simp
qed

section \<open>The arithmetic on known values\<close>

text \<open>
  The model against values computed by IEEE-754 hardware: exact conversions, a tie rounded
  to even, an inexact product, overflow to infinity, underflow through the subnormal
  range, narrowing to binary32, truncation towards zero and casts out of and in range.
\<close>

lemma ieee_known_values:
  "word_of_fp (fp_of_int binary64 1) = double_1_0"
  "word_of_fp (fp_of_int binary64 (- 3)) = (0xC008000000000000 :: 64 word)"
  "word_of_fp (fp_of_int binary64 (2 ^ 53 + 1)) = (0x4340000000000000 :: 64 word)"
  "word_of_fp (fp_of_int binary64 (2 ^ 53 + 3)) = (0x4340000000000002 :: 64 word)"
  "scale_float64 0x3FB999999999999A 0x4008000000000000 = 0x3FD3333333333334"
  "scale_float64 0x7FEFFFFFFFFFFFFF double_2_0 = 0x7FF0000000000000"
  "scale_float64 0x0000000000000001 0x3FE0000000000000 = 0"
  "scale_float64 0x0000000000000003 0x3FE0000000000000 = 2"
  "scale_float32 0x3DCCCCCD 0x4008000000000000 = 0x3E99999A"
  "scale_float32 0x7F7FFFFF double_2_0 = 0x7F800000"
  "scale_float32 0x00000001 0xBFF0000000000000 = 0x80000001"
  "fp_to_int binary64 (scale_int (- 7) 0x3FE0000000000000) = Some (- 3)"
  "(cast_unsigned (scale_int 300 double_1_0) :: 8 word option) = None"
  "(cast_signed (scale_int 100 0xBFF4000000000000) :: 8 word option) = Some (- 125)"
  by code_simp+

section \<open>Boolean decoding\<close>

text \<open>
  C7.  For every register sequence with a first word \<open>r\<close> and every result object,
  \<open>modbus_convert_bit_bool\<close> succeeds when \<open>bit_pos\<close> is at most 15 and stores bit
  \<open>bit_pos\<close> of \<open>r\<close>, with no scaling; it fails with \<open>MODBUS_CONV_ERR_INVALID_BIT\<close>, the
  result object unchanged, when \<open>bit_pos\<close> exceeds 15.  In particular positions 0 and 15
  succeed and position 16 fails.
\<close>

theorem bit_bool_decoding:
  "modbus_convert_bit_bool (Some (r # rs)) bit_pos (Some old) =
     (if bit_pos \<le> 15 then Some (MODBUS_CONV_OK, Some (Bool_val (bit r (unat bit_pos))))
      else Some (MODBUS_CONV_ERR_INVALID_BIT, Some old)) \<and>
   modbus_convert_bit_bool (Some (r # rs)) 0 (Some old) =
     Some (MODBUS_CONV_OK, Some (Bool_val (bit r 0))) \<and>
   modbus_convert_bit_bool (Some (r # rs)) 15 (Some old) =
     Some (MODBUS_CONV_OK, Some (Bool_val (bit r 15))) \<and>
   modbus_convert_bit_bool (Some (r # rs)) 16 (Some old) =
     Some (MODBUS_CONV_ERR_INVALID_BIT, Some old)"
proof -
  have g: "modbus_convert_bit_bool (Some (r # rs)) p (Some old) =
     (if p \<le> 15 then Some (MODBUS_CONV_OK, Some (Bool_val (bit r (unat p))))
      else Some (MODBUS_CONV_ERR_INVALID_BIT, Some old))" for p
  proof (cases "p \<le> 15")
    case True
    then have "unat p \<le> 15" by (simp add: word_le_nat_alt)
    then show ?thesis using True
      by (simp add: modbus_convert_bit_bool_def reg_at_def bit_test flip: not_le)
  next
    case False
    then have "15 < p" by simp
    then show ?thesis using False by (simp add: modbus_convert_bit_bool_def)
  qed
  show ?thesis using g [of bit_pos] g [of 0] g [of 15] g [of 16] by simp
qed

section \<open>The empty register sequence\<close>

text \<open>
  C8.  For every data type tag, bit position and scaling factor, \<open>modbus_convert\<close> called
  with non-null \<open>registers\<close> and \<open>result\<close> and a register count of zero fails with
  \<open>MODBUS_CONV_ERR_INSUFF_REGS\<close>.
\<close>

theorem zero_count_insufficient_registers:
  "modbus_convert (Some regs) 0 data_type bit_pos scaling_factor (Some old) =
     Some (MODBUS_CONV_ERR_INSUFF_REGS, Some old)"
  by (simp add: modbus_convert_def)

section \<open>The duplicate 64-bit patterns\<close>

lemmas loop4 = regs_to_bytes_2 regs_to_bytes_4 bytes_reverse_4 bytes_reverse_8
  swap_copy_loop_4 swap_copy_rev_loop_4

lemma reorder_int64_HG_GH:
  "reorder_int64 MODBUS_INT64_SIGNED_HGFEDCBA regs = reorder_int64 MODBUS_INT64_SIGNED_GHEFCDAB regs"
  "reorder_int64 MODBUS_INT64_UNSIGNED_HGFEDCBA regs = reorder_int64 MODBUS_INT64_UNSIGNED_GHEFCDAB regs"
  "reorder_float64 MODBUS_IEEE_FLOAT64_HGFEDCBA regs = reorder_float64 MODBUS_IEEE_FLOAT64_GHEFCDAB regs"
  by (simp_all add: reorder_int64_def reorder_float64_def tag_defs)


lemma reorder_64_HG_GH_bytes:
  "reorder_int64 MODBUS_INT64_SIGNED_HGFEDCBA [w0, w1, w2, w3] =
     Some (Inr (reversed_words_reversed_bytes [w0, w1, w2, w3]))"
  "reorder_int64 MODBUS_INT64_SIGNED_GHEFCDAB [w0, w1, w2, w3] =
     Some (Inr (reversed_words_reversed_bytes [w0, w1, w2, w3]))"
  "reorder_int64 MODBUS_INT64_UNSIGNED_HGFEDCBA [w0, w1, w2, w3] =
     Some (Inr (reversed_words_reversed_bytes [w0, w1, w2, w3]))"
  "reorder_int64 MODBUS_INT64_UNSIGNED_GHEFCDAB [w0, w1, w2, w3] =
     Some (Inr (reversed_words_reversed_bytes [w0, w1, w2, w3]))"
  "reorder_float64 MODBUS_IEEE_FLOAT64_HGFEDCBA [w0, w1, w2, w3] =
     Some (Inr (reversed_words_reversed_bytes [w0, w1, w2, w3]))"
  "reorder_float64 MODBUS_IEEE_FLOAT64_GHEFCDAB [w0, w1, w2, w3] =
     Some (Inr (reversed_words_reversed_bytes [w0, w1, w2, w3]))"
  by (simp_all add: reorder_int64_def reorder_float64_def reversed_words_reversed_bytes_def
        tag_defs reg_at_def loop4)

lemma convert_int64_HG_GH_signed:
  "modbus_convert_int64 (Some [w0, w1, w2, w3]) MODBUS_INT64_SIGNED_HGFEDCBA scaling_factor
     (Some old) =
     (case cast_signed
             (scale_int (sint (u64_of_bytes (reversed_words_reversed_bytes [w0, w1, w2, w3])))
                scaling_factor) of
        None \<Rightarrow> None
      | Some v \<Rightarrow> Some (MODBUS_CONV_OK, Some (I64 v)))"
  "modbus_convert_int64 (Some [w0, w1, w2, w3]) MODBUS_INT64_SIGNED_GHEFCDAB scaling_factor
     (Some old) =
     (case cast_signed
             (scale_int (sint (u64_of_bytes (reversed_words_reversed_bytes [w0, w1, w2, w3])))
                scaling_factor) of
        None \<Rightarrow> None
      | Some v \<Rightarrow> Some (MODBUS_CONV_OK, Some (I64 v)))"
  by (simp_all add: modbus_convert_int64_def reorder_64_HG_GH_bytes split: option.split,
      simp_all add: tag_defs)

lemma convert_int64_HG_GH_unsigned:
  "modbus_convert_int64 (Some [w0, w1, w2, w3]) MODBUS_INT64_UNSIGNED_HGFEDCBA scaling_factor
     (Some old) =
     (case cast_unsigned
             (scale_int (uint (u64_of_bytes (reversed_words_reversed_bytes [w0, w1, w2, w3])))
                scaling_factor) of
        None \<Rightarrow> None
      | Some v \<Rightarrow> Some (MODBUS_CONV_OK, Some (U64 v)))"
  "modbus_convert_int64 (Some [w0, w1, w2, w3]) MODBUS_INT64_UNSIGNED_GHEFCDAB scaling_factor
     (Some old) =
     (case cast_unsigned
             (scale_int (uint (u64_of_bytes (reversed_words_reversed_bytes [w0, w1, w2, w3])))
                scaling_factor) of
        None \<Rightarrow> None
      | Some v \<Rightarrow> Some (MODBUS_CONV_OK, Some (U64 v)))"
  by (simp_all add: modbus_convert_int64_def reorder_64_HG_GH_bytes split: option.split,
      simp_all add: tag_defs)

lemma convert_float64_HG_GH:
  "modbus_convert_float64 (Some [w0, w1, w2, w3]) MODBUS_IEEE_FLOAT64_HGFEDCBA scaling_factor
     (Some old) =
     Some (MODBUS_CONV_OK,
       Some (F64 (scale_float64 (u64_of_bytes (reversed_words_reversed_bytes [w0, w1, w2, w3]))
                    scaling_factor)))"
  "modbus_convert_float64 (Some [w0, w1, w2, w3]) MODBUS_IEEE_FLOAT64_GHEFCDAB scaling_factor
     (Some old) =
     Some (MODBUS_CONV_OK,
       Some (F64 (scale_float64 (u64_of_bytes (reversed_words_reversed_bytes [w0, w1, w2, w3]))
                    scaling_factor)))"
  by (simp_all add: modbus_convert_float64_def reorder_64_HG_GH_bytes)

text \<open>
  C10.  For every register sequence and every scaling factor, the tags \<open>HGFEDCBA\<close> and
  \<open>GHEFCDAB\<close> give the same outcome, in the signed and unsigned 64-bit decoder, in the
  float64 decoder and through \<open>modbus_convert\<close>.  For every four words, each of the six
  tags selects the same bytes in \<open>reorder_int64\<close> and \<open>reorder_float64\<close>: the words in
  reversed order, serialised big-endian, and the 8 bytes reversed, which leaves the words
  in received order with the two bytes of each word exchanged.  The outcome of each
  decoder is the value of those bytes, most significant first, scaled: cast to \<open>int64_t\<close>
  or \<open>uint64_t\<close> by the integer decoder, stored as the scaled \<open>double\<close> by the float64
  decoder.
\<close>

theorem hgfedcba_ghefcdab_duplicates:
  "modbus_convert_int64 registers MODBUS_INT64_SIGNED_HGFEDCBA scaling_factor result =
     modbus_convert_int64 registers MODBUS_INT64_SIGNED_GHEFCDAB scaling_factor result \<and>
   modbus_convert_int64 registers MODBUS_INT64_UNSIGNED_HGFEDCBA scaling_factor result =
     modbus_convert_int64 registers MODBUS_INT64_UNSIGNED_GHEFCDAB scaling_factor result \<and>
   modbus_convert_float64 registers MODBUS_IEEE_FLOAT64_HGFEDCBA scaling_factor result =
     modbus_convert_float64 registers MODBUS_IEEE_FLOAT64_GHEFCDAB scaling_factor result \<and>
   modbus_convert registers reg_count MODBUS_INT64_SIGNED_HGFEDCBA bit_pos scaling_factor result =
     modbus_convert registers reg_count MODBUS_INT64_SIGNED_GHEFCDAB bit_pos scaling_factor result \<and>
   modbus_convert registers reg_count MODBUS_INT64_UNSIGNED_HGFEDCBA bit_pos scaling_factor result =
     modbus_convert registers reg_count MODBUS_INT64_UNSIGNED_GHEFCDAB bit_pos scaling_factor result \<and>
   modbus_convert registers reg_count MODBUS_IEEE_FLOAT64_HGFEDCBA bit_pos scaling_factor result =
     modbus_convert registers reg_count MODBUS_IEEE_FLOAT64_GHEFCDAB bit_pos scaling_factor result \<and>
   reorder_int64 MODBUS_INT64_SIGNED_HGFEDCBA [w0, w1, w2, w3] =
     Some (Inr [lo_byte w0, hi_byte w0, lo_byte w1, hi_byte w1,
                lo_byte w2, hi_byte w2, lo_byte w3, hi_byte w3]) \<and>
   reorder_int64 MODBUS_INT64_SIGNED_GHEFCDAB [w0, w1, w2, w3] =
     Some (Inr [lo_byte w0, hi_byte w0, lo_byte w1, hi_byte w1,
                lo_byte w2, hi_byte w2, lo_byte w3, hi_byte w3]) \<and>
   reorder_int64 MODBUS_INT64_UNSIGNED_HGFEDCBA [w0, w1, w2, w3] =
     Some (Inr [lo_byte w0, hi_byte w0, lo_byte w1, hi_byte w1,
                lo_byte w2, hi_byte w2, lo_byte w3, hi_byte w3]) \<and>
   reorder_int64 MODBUS_INT64_UNSIGNED_GHEFCDAB [w0, w1, w2, w3] =
     Some (Inr [lo_byte w0, hi_byte w0, lo_byte w1, hi_byte w1,
                lo_byte w2, hi_byte w2, lo_byte w3, hi_byte w3]) \<and>
   reorder_float64 MODBUS_IEEE_FLOAT64_HGFEDCBA [w0, w1, w2, w3] =
     Some (Inr [lo_byte w0, hi_byte w0, lo_byte w1, hi_byte w1,
                lo_byte w2, hi_byte w2, lo_byte w3, hi_byte w3]) \<and>
   reorder_float64 MODBUS_IEEE_FLOAT64_GHEFCDAB [w0, w1, w2, w3] =
     Some (Inr [lo_byte w0, hi_byte w0, lo_byte w1, hi_byte w1,
                lo_byte w2, hi_byte w2, lo_byte w3, hi_byte w3]) \<and>
   reversed_words_reversed_bytes [w0, w1, w2, w3] =
     [lo_byte w0, hi_byte w0, lo_byte w1, hi_byte w1,
      lo_byte w2, hi_byte w2, lo_byte w3, hi_byte w3] \<and>
   modbus_convert_int64 (Some [w0, w1, w2, w3]) MODBUS_INT64_SIGNED_HGFEDCBA scaling_factor
     (Some old) =
     (case cast_signed
             (scale_int (sint (u64_of_bytes (reversed_words_reversed_bytes [w0, w1, w2, w3])))
                scaling_factor) of
        None \<Rightarrow> None
      | Some v \<Rightarrow> Some (MODBUS_CONV_OK, Some (I64 v))) \<and>
   modbus_convert_int64 (Some [w0, w1, w2, w3]) MODBUS_INT64_SIGNED_GHEFCDAB scaling_factor
     (Some old) =
     (case cast_signed
             (scale_int (sint (u64_of_bytes (reversed_words_reversed_bytes [w0, w1, w2, w3])))
                scaling_factor) of
        None \<Rightarrow> None
      | Some v \<Rightarrow> Some (MODBUS_CONV_OK, Some (I64 v))) \<and>
   modbus_convert_int64 (Some [w0, w1, w2, w3]) MODBUS_INT64_UNSIGNED_HGFEDCBA scaling_factor
     (Some old) =
     (case cast_unsigned
             (scale_int (uint (u64_of_bytes (reversed_words_reversed_bytes [w0, w1, w2, w3])))
                scaling_factor) of
        None \<Rightarrow> None
      | Some v \<Rightarrow> Some (MODBUS_CONV_OK, Some (U64 v))) \<and>
   modbus_convert_int64 (Some [w0, w1, w2, w3]) MODBUS_INT64_UNSIGNED_GHEFCDAB scaling_factor
     (Some old) =
     (case cast_unsigned
             (scale_int (uint (u64_of_bytes (reversed_words_reversed_bytes [w0, w1, w2, w3])))
                scaling_factor) of
        None \<Rightarrow> None
      | Some v \<Rightarrow> Some (MODBUS_CONV_OK, Some (U64 v))) \<and>
   modbus_convert_float64 (Some [w0, w1, w2, w3]) MODBUS_IEEE_FLOAT64_HGFEDCBA scaling_factor
     (Some old) =
     Some (MODBUS_CONV_OK,
       Some (F64 (scale_float64 (u64_of_bytes (reversed_words_reversed_bytes [w0, w1, w2, w3]))
                    scaling_factor))) \<and>
   modbus_convert_float64 (Some [w0, w1, w2, w3]) MODBUS_IEEE_FLOAT64_GHEFCDAB scaling_factor
     (Some old) =
     Some (MODBUS_CONV_OK,
       Some (F64 (scale_float64 (u64_of_bytes (reversed_words_reversed_bytes [w0, w1, w2, w3]))
                    scaling_factor)))"
proof -
  have a: "modbus_convert_int64 registers MODBUS_INT64_SIGNED_HGFEDCBA scaling_factor result =
     modbus_convert_int64 registers MODBUS_INT64_SIGNED_GHEFCDAB scaling_factor result"
    by (cases registers; cases result)
       (simp_all add: modbus_convert_int64_def reorder_int64_HG_GH, simp_all add: tag_defs)
  have b: "modbus_convert_int64 registers MODBUS_INT64_UNSIGNED_HGFEDCBA scaling_factor result =
     modbus_convert_int64 registers MODBUS_INT64_UNSIGNED_GHEFCDAB scaling_factor result"
    by (cases registers; cases result)
       (simp_all add: modbus_convert_int64_def reorder_int64_HG_GH, simp_all add: tag_defs)
  have c: "modbus_convert_float64 registers MODBUS_IEEE_FLOAT64_HGFEDCBA scaling_factor result =
     modbus_convert_float64 registers MODBUS_IEEE_FLOAT64_GHEFCDAB scaling_factor result"
    by (cases registers; cases result)
       (simp_all add: modbus_convert_float64_def reorder_int64_HG_GH)
  have d: "modbus_convert registers reg_count MODBUS_INT64_SIGNED_HGFEDCBA bit_pos scaling_factor result =
     modbus_convert registers reg_count MODBUS_INT64_SIGNED_GHEFCDAB bit_pos scaling_factor result"
    using a by (simp add: modbus_convert_def tag_defs)
  have e: "modbus_convert registers reg_count MODBUS_INT64_UNSIGNED_HGFEDCBA bit_pos scaling_factor result =
     modbus_convert registers reg_count MODBUS_INT64_UNSIGNED_GHEFCDAB bit_pos scaling_factor result"
    using b by (simp add: modbus_convert_def tag_defs)
  have f: "modbus_convert registers reg_count MODBUS_IEEE_FLOAT64_HGFEDCBA bit_pos scaling_factor result =
     modbus_convert registers reg_count MODBUS_IEEE_FLOAT64_GHEFCDAB bit_pos scaling_factor result"
    using c by (simp add: modbus_convert_def tag_defs)
  have l: "reversed_words_reversed_bytes [w0, w1, w2, w3] =
     [lo_byte w0, hi_byte w0, lo_byte w1, hi_byte w1,
      lo_byte w2, hi_byte w2, lo_byte w3, hi_byte w3]"
    by (simp add: reversed_words_reversed_bytes_def)
  note g = reorder_64_HG_GH_bytes [of w0 w1 w2 w3, unfolded l]
  show ?thesis
    by (intro conjI a b c d e f g l convert_int64_HG_GH_signed convert_int64_HG_GH_unsigned
          convert_float64_HG_GH)
qed

section \<open>No store on an error return\<close>

lemma reorder_int32_rc:
  "reorder_int32 data_type regs = Some (Inl rc) \<Longrightarrow> rc = MODBUS_CONV_ERR_INVALID_TYPE"
  by (auto simp: reorder_int32_def split: if_splits Option.bind_splits)

lemma reorder_int64_rc:
  "reorder_int64 data_type regs = Some (Inl rc) \<Longrightarrow> rc = MODBUS_CONV_ERR_INVALID_TYPE"
  by (auto simp: reorder_int64_def split: if_splits Option.bind_splits)

lemma reorder_float32_rc:
  "reorder_float32 data_type regs = Some (Inl rc) \<Longrightarrow> rc = MODBUS_CONV_ERR_INVALID_TYPE"
  by (auto simp: reorder_float32_def split: if_splits Option.bind_splits)

lemma reorder_float64_rc:
  "reorder_float64 data_type regs = Some (Inl rc) \<Longrightarrow> rc = MODBUS_CONV_ERR_INVALID_TYPE"
  by (auto simp: reorder_float64_def split: if_splits Option.bind_splits)

lemma bit_bool_err:
  "modbus_convert_bit_bool registers bit_pos result = Some (rc, result') \<Longrightarrow>
   rc \<noteq> MODBUS_CONV_OK \<Longrightarrow> result' = result"
  by (auto simp: modbus_convert_bit_bool_def split: option.splits if_splits Option.bind_splits)

lemma int8_signed_err:
  "modbus_convert_int8_signed registers scaling_factor result = Some (rc, result') \<Longrightarrow>
   rc \<noteq> MODBUS_CONV_OK \<Longrightarrow> result' = result"
  by (auto simp: modbus_convert_int8_signed_def Let_def
           split: option.splits if_splits Option.bind_splits)

lemma int8_unsigned_err:
  "modbus_convert_int8_unsigned registers scaling_factor result = Some (rc, result') \<Longrightarrow>
   rc \<noteq> MODBUS_CONV_OK \<Longrightarrow> result' = result"
  by (auto simp: modbus_convert_int8_unsigned_def Let_def
           split: option.splits if_splits Option.bind_splits)

lemma int16_signed_err:
  "modbus_convert_int16_signed registers swap_bytes scaling_factor result = Some (rc, result') \<Longrightarrow>
   rc \<noteq> MODBUS_CONV_OK \<Longrightarrow> result' = result"
  by (auto simp: modbus_convert_int16_signed_def Let_def
           split: option.splits if_splits Option.bind_splits)

lemma int16_unsigned_err:
  "modbus_convert_int16_unsigned registers swap_bytes scaling_factor result = Some (rc, result') \<Longrightarrow>
   rc \<noteq> MODBUS_CONV_OK \<Longrightarrow> result' = result"
  by (auto simp: modbus_convert_int16_unsigned_def Let_def
           split: option.splits if_splits Option.bind_splits)

lemma int32_err:
  "modbus_convert_int32 registers data_type scaling_factor result = Some (rc, result') \<Longrightarrow>
   rc \<noteq> MODBUS_CONV_OK \<Longrightarrow> result' = result"
  by (auto simp: modbus_convert_int32_def Let_def
           split: option.splits sum.splits if_splits Option.bind_splits)

lemma int64_err:
  "modbus_convert_int64 registers data_type scaling_factor result = Some (rc, result') \<Longrightarrow>
   rc \<noteq> MODBUS_CONV_OK \<Longrightarrow> result' = result"
  by (auto simp: modbus_convert_int64_def Let_def
           split: option.splits sum.splits if_splits Option.bind_splits)

lemma float32_err:
  "modbus_convert_float32 registers data_type scaling_factor result = Some (rc, result') \<Longrightarrow>
   rc \<noteq> MODBUS_CONV_OK \<Longrightarrow> result' = result"
  by (auto simp: modbus_convert_float32_def Let_def
           split: option.splits sum.splits if_splits Option.bind_splits)

lemma float64_err:
  "modbus_convert_float64 registers data_type scaling_factor result = Some (rc, result') \<Longrightarrow>
   rc \<noteq> MODBUS_CONV_OK \<Longrightarrow> result' = result"
  by (auto simp: modbus_convert_float64_def Let_def
           split: option.splits sum.splits if_splits Option.bind_splits)

lemma convert_err:
  "modbus_convert registers reg_count data_type bit_pos scaling_factor result = Some (rc, result') \<Longrightarrow>
   rc \<noteq> MODBUS_CONV_OK \<Longrightarrow> result' = result"
  unfolding modbus_convert_def
  by (auto split: if_splits
      dest: bit_bool_err int8_signed_err int8_unsigned_err int16_signed_err int16_unsigned_err
        int32_err int64_err float32_err float64_err)

text \<open>
  C9.  Whenever \<open>modbus_convert\<close> or a specialised decoder returns a code other than
  \<open>MODBUS_CONV_OK\<close>, the result object holds what it held before the call.
\<close>

theorem error_leaves_result_unchanged:
  "(modbus_convert registers reg_count data_type bit_pos scaling_factor result = Some (rc, result') \<and>
      rc \<noteq> MODBUS_CONV_OK \<longrightarrow> result' = result) \<and>
   (modbus_convert_bit_bool registers bit_pos result = Some (rc, result') \<and>
      rc \<noteq> MODBUS_CONV_OK \<longrightarrow> result' = result) \<and>
   (modbus_convert_int8_signed registers scaling_factor result = Some (rc, result') \<and>
      rc \<noteq> MODBUS_CONV_OK \<longrightarrow> result' = result) \<and>
   (modbus_convert_int8_unsigned registers scaling_factor result = Some (rc, result') \<and>
      rc \<noteq> MODBUS_CONV_OK \<longrightarrow> result' = result) \<and>
   (modbus_convert_int16_signed registers swap_bytes scaling_factor result = Some (rc, result') \<and>
      rc \<noteq> MODBUS_CONV_OK \<longrightarrow> result' = result) \<and>
   (modbus_convert_int16_unsigned registers swap_bytes scaling_factor result = Some (rc, result') \<and>
      rc \<noteq> MODBUS_CONV_OK \<longrightarrow> result' = result) \<and>
   (modbus_convert_int32 registers data_type scaling_factor result = Some (rc, result') \<and>
      rc \<noteq> MODBUS_CONV_OK \<longrightarrow> result' = result) \<and>
   (modbus_convert_int64 registers data_type scaling_factor result = Some (rc, result') \<and>
      rc \<noteq> MODBUS_CONV_OK \<longrightarrow> result' = result) \<and>
   (modbus_convert_float32 registers data_type scaling_factor result = Some (rc, result') \<and>
      rc \<noteq> MODBUS_CONV_OK \<longrightarrow> result' = result) \<and>
   (modbus_convert_float64 registers data_type scaling_factor result = Some (rc, result') \<and>
      rc \<noteq> MODBUS_CONV_OK \<longrightarrow> result' = result)"
  by (intro conjI impI; elim conjE;
      (erule (1) convert_err | erule (1) bit_bool_err | erule (1) int8_signed_err |
       erule (1) int8_unsigned_err | erule (1) int16_signed_err | erule (1) int16_unsigned_err |
       erule (1) int32_err | erule (1) int64_err | erule (1) float32_err | erule (1) float64_err))

text \<open>
  The theorem at a null \<open>registers\<close> pointer, where every entry point returns
  \<open>MODBUS_CONV_ERR_NULL_PTR\<close>, and at four registers with count 0, tag
  \<open>MODBUS_INT8_SIGNED\<close> and bit position 16, where the other error codes arise.
\<close>

theorem error_leaves_result_unchanged_witness:
  "modbus_convert None 1 MODBUS_INT8_SIGNED 16 double_1_0 (Some (U16 7)) =
     Some (MODBUS_CONV_ERR_NULL_PTR, Some (U16 7)) \<and>
   modbus_convert_bit_bool None 16 (Some (U16 7)) =
     Some (MODBUS_CONV_ERR_NULL_PTR, Some (U16 7)) \<and>
   modbus_convert_int8_signed None double_1_0 (Some (U16 7)) =
     Some (MODBUS_CONV_ERR_NULL_PTR, Some (U16 7)) \<and>
   modbus_convert_int8_unsigned None double_1_0 (Some (U16 7)) =
     Some (MODBUS_CONV_ERR_NULL_PTR, Some (U16 7)) \<and>
   modbus_convert_int16_signed None True double_1_0 (Some (U16 7)) =
     Some (MODBUS_CONV_ERR_NULL_PTR, Some (U16 7)) \<and>
   modbus_convert_int16_unsigned None True double_1_0 (Some (U16 7)) =
     Some (MODBUS_CONV_ERR_NULL_PTR, Some (U16 7)) \<and>
   modbus_convert_int32 None MODBUS_INT8_SIGNED double_1_0 (Some (U16 7)) =
     Some (MODBUS_CONV_ERR_NULL_PTR, Some (U16 7)) \<and>
   modbus_convert_int64 None MODBUS_INT8_SIGNED double_1_0 (Some (U16 7)) =
     Some (MODBUS_CONV_ERR_NULL_PTR, Some (U16 7)) \<and>
   modbus_convert_float32 None MODBUS_INT8_SIGNED double_1_0 (Some (U16 7)) =
     Some (MODBUS_CONV_ERR_NULL_PTR, Some (U16 7)) \<and>
   modbus_convert_float64 None MODBUS_INT8_SIGNED double_1_0 (Some (U16 7)) =
     Some (MODBUS_CONV_ERR_NULL_PTR, Some (U16 7)) \<and>
   MODBUS_CONV_ERR_NULL_PTR \<noteq> MODBUS_CONV_OK \<and>
   modbus_convert (Some [1, 2, 3, 4]) 0 MODBUS_INT8_SIGNED 16 double_1_0 (Some (U16 7)) =
     Some (MODBUS_CONV_ERR_INSUFF_REGS, Some (U16 7)) \<and>
   MODBUS_CONV_ERR_INSUFF_REGS \<noteq> MODBUS_CONV_OK \<and>
   modbus_convert_bit_bool (Some [1, 2, 3, 4]) 16 (Some (U16 7)) =
     Some (MODBUS_CONV_ERR_INVALID_BIT, Some (U16 7)) \<and>
   MODBUS_CONV_ERR_INVALID_BIT \<noteq> MODBUS_CONV_OK \<and>
   modbus_convert_int32 (Some [1, 2, 3, 4]) MODBUS_INT8_SIGNED double_1_0 (Some (U16 7)) =
     Some (MODBUS_CONV_ERR_INVALID_TYPE, Some (U16 7)) \<and>
   modbus_convert_int64 (Some [1, 2, 3, 4]) MODBUS_INT8_SIGNED double_1_0 (Some (U16 7)) =
     Some (MODBUS_CONV_ERR_INVALID_TYPE, Some (U16 7)) \<and>
   modbus_convert_float32 (Some [1, 2, 3, 4]) MODBUS_INT8_SIGNED double_1_0 (Some (U16 7)) =
     Some (MODBUS_CONV_ERR_INVALID_TYPE, Some (U16 7)) \<and>
   modbus_convert_float64 (Some [1, 2, 3, 4]) MODBUS_INT8_SIGNED double_1_0 (Some (U16 7)) =
     Some (MODBUS_CONV_ERR_INVALID_TYPE, Some (U16 7)) \<and>
   MODBUS_CONV_ERR_INVALID_TYPE \<noteq> MODBUS_CONV_OK"
proof -
  have n: "modbus_convert None 1 MODBUS_INT8_SIGNED 16 double_1_0 (Some (U16 7)) =
      Some (MODBUS_CONV_ERR_NULL_PTR, Some (U16 7))"
    "modbus_convert_bit_bool None 16 (Some (U16 7)) =
      Some (MODBUS_CONV_ERR_NULL_PTR, Some (U16 7))"
    "modbus_convert_int8_signed None double_1_0 (Some (U16 7)) =
      Some (MODBUS_CONV_ERR_NULL_PTR, Some (U16 7))"
    "modbus_convert_int8_unsigned None double_1_0 (Some (U16 7)) =
      Some (MODBUS_CONV_ERR_NULL_PTR, Some (U16 7))"
    "modbus_convert_int16_signed None True double_1_0 (Some (U16 7)) =
      Some (MODBUS_CONV_ERR_NULL_PTR, Some (U16 7))"
    "modbus_convert_int16_unsigned None True double_1_0 (Some (U16 7)) =
      Some (MODBUS_CONV_ERR_NULL_PTR, Some (U16 7))"
    "modbus_convert_int32 None MODBUS_INT8_SIGNED double_1_0 (Some (U16 7)) =
      Some (MODBUS_CONV_ERR_NULL_PTR, Some (U16 7))"
    "modbus_convert_int64 None MODBUS_INT8_SIGNED double_1_0 (Some (U16 7)) =
      Some (MODBUS_CONV_ERR_NULL_PTR, Some (U16 7))"
    "modbus_convert_float32 None MODBUS_INT8_SIGNED double_1_0 (Some (U16 7)) =
      Some (MODBUS_CONV_ERR_NULL_PTR, Some (U16 7))"
    "modbus_convert_float64 None MODBUS_INT8_SIGNED double_1_0 (Some (U16 7)) =
      Some (MODBUS_CONV_ERR_NULL_PTR, Some (U16 7))"
    by (simp_all add: modbus_convert_def modbus_convert_bit_bool_def
        modbus_convert_int8_signed_def modbus_convert_int8_unsigned_def
        modbus_convert_int16_signed_def modbus_convert_int16_unsigned_def
        modbus_convert_int32_def modbus_convert_int64_def modbus_convert_float32_def
        modbus_convert_float64_def)
  have e: "modbus_convert (Some [1, 2, 3, 4]) 0 MODBUS_INT8_SIGNED 16 double_1_0 (Some (U16 7)) =
      Some (MODBUS_CONV_ERR_INSUFF_REGS, Some (U16 7))"
    "modbus_convert_bit_bool (Some [1, 2, 3, 4]) 16 (Some (U16 7)) =
      Some (MODBUS_CONV_ERR_INVALID_BIT, Some (U16 7))"
    "modbus_convert_int32 (Some [1, 2, 3, 4]) MODBUS_INT8_SIGNED double_1_0 (Some (U16 7)) =
      Some (MODBUS_CONV_ERR_INVALID_TYPE, Some (U16 7))"
    "modbus_convert_int64 (Some [1, 2, 3, 4]) MODBUS_INT8_SIGNED double_1_0 (Some (U16 7)) =
      Some (MODBUS_CONV_ERR_INVALID_TYPE, Some (U16 7))"
    "modbus_convert_float32 (Some [1, 2, 3, 4]) MODBUS_INT8_SIGNED double_1_0 (Some (U16 7)) =
      Some (MODBUS_CONV_ERR_INVALID_TYPE, Some (U16 7))"
    "modbus_convert_float64 (Some [1, 2, 3, 4]) MODBUS_INT8_SIGNED double_1_0 (Some (U16 7)) =
      Some (MODBUS_CONV_ERR_INVALID_TYPE, Some (U16 7))"
    by (simp_all add: modbus_convert_def modbus_convert_bit_bool_def modbus_convert_int32_def
        modbus_convert_int64_def modbus_convert_float32_def modbus_convert_float64_def
        reorder_int32_def reorder_int64_def reorder_float32_def reorder_float64_def tag_defs)
  have c: "MODBUS_CONV_ERR_NULL_PTR \<noteq> MODBUS_CONV_OK"
    "MODBUS_CONV_ERR_INSUFF_REGS \<noteq> MODBUS_CONV_OK"
    "MODBUS_CONV_ERR_INVALID_BIT \<noteq> MODBUS_CONV_OK"
    "MODBUS_CONV_ERR_INVALID_TYPE \<noteq> MODBUS_CONV_OK"
    by (simp_all add: rc_defs)
  show ?thesis
    using n e c
      error_leaves_result_unchanged [of None 1 MODBUS_INT8_SIGNED 16 double_1_0 "Some (U16 7)"
        MODBUS_CONV_ERR_NULL_PTR "Some (U16 7)" True]
      error_leaves_result_unchanged [of "Some [1, 2, 3, 4]" 0 MODBUS_INT8_SIGNED 16 double_1_0
        "Some (U16 7)" MODBUS_CONV_ERR_INVALID_TYPE "Some (U16 7)" True]
    by simp
qed

section \<open>The 64-bit patterns against the table of the specification\<close>

lemma reorder_int64_table:
  "reorder_int64 (int64_signed_tag p) [a, b, c, d] = Some (Inr (spec_int64_bytes p [a, b, c, d]))"
  "reorder_int64 (int64_unsigned_tag p) [a, b, c, d] = Some (Inr (spec_int64_bytes p [a, b, c, d]))"
  by (cases p; simp add: reorder_int64_def spec_int64_bytes_def tag_defs reg_at_def loop4
        swap_bytes_16_eq hi_byte_swapped lo_byte_swapped)+

lemma spec_int64_bytes_length: "length (spec_int64_bytes p regs) = 8"
  by (cases p) (simp_all add: spec_int64_bytes_def)

lemma u64_spec_raw:
  "u64_of_bytes (spec_int64_bytes p [a, b, c, d]) = spec_int64_raw p [a, b, c, d]"
  unfolding spec_int64_raw_def
  by (cases p) (simp_all add: spec_int64_bytes_def u64_msb)

lemma signed_tag_range:
  "\<not> (MODBUS_INT64_UNSIGNED_ABCDEFGH \<le> int64_signed_tag p \<and>
      int64_signed_tag p \<le> MODBUS_INT64_UNSIGNED_EFGHABCD)"
  by (cases p) (simp_all add: tag_defs)

lemma unsigned_tag_range:
  "MODBUS_INT64_UNSIGNED_ABCDEFGH \<le> int64_unsigned_tag p \<and>
      int64_unsigned_tag p \<le> MODBUS_INT64_UNSIGNED_EFGHABCD"
  by (cases p) (simp_all add: tag_defs)

lemma list4: "length xs = 4 \<Longrightarrow> \<exists>a b c d. xs = [a, b, c, d]"
  by (cases xs; simp; rename_tac ys; case_tac ys; simp; rename_tac zs; case_tac zs; simp;
      rename_tac ws; case_tac ws; simp)

text \<open>
  C2.  For every sequence of four register words and each of the eight patterns, in its
  signed and its unsigned tag, the raw value that \<open>modbus_convert_int64\<close> assembles is the
  one the table prescribes: the source word of each slot selected, the bytes of each
  selected word swapped where the row says so, the four words serialised big-endian, the
  eight bytes reversed where the row says so, and the bytes read most significant first.
  The decoder then scales that value.
\<close>

theorem int64_raw_value_follows_table:
  assumes "length regs = 4"
  shows
    "map_option (map_sum id u64_of_bytes) (reorder_int64 (int64_signed_tag p) regs) =
       Some (Inr (spec_int64_raw p regs)) \<and>
     map_option (map_sum id u64_of_bytes) (reorder_int64 (int64_unsigned_tag p) regs) =
       Some (Inr (spec_int64_raw p regs)) \<and>
     modbus_convert_int64 (Some regs) (int64_signed_tag p) scaling_factor (Some old) =
       (case cast_signed (scale_int (sint (spec_int64_raw p regs)) scaling_factor) of
          None \<Rightarrow> None
        | Some v \<Rightarrow> Some (MODBUS_CONV_OK, Some (I64 v))) \<and>
     modbus_convert_int64 (Some regs) (int64_unsigned_tag p) scaling_factor (Some old) =
       (case cast_unsigned (scale_int (uint (spec_int64_raw p regs)) scaling_factor) of
          None \<Rightarrow> None
        | Some v \<Rightarrow> Some (MODBUS_CONV_OK, Some (U64 v)))"
proof -
  obtain a b c d where regs: "regs = [a, b, c, d]"
    using list4 [OF assms] by blast
  show ?thesis
    unfolding regs modbus_convert_int64_def
    by (simp add: reorder_int64_table u64_spec_raw signed_tag_range unsigned_tag_range
          split: option.split)
qed

text \<open>The theorem at the pattern \<open>FEHGBADC\<close> and four concrete words.\<close>

theorem int64_raw_value_follows_table_witness:
  "length [0x0302, 0x0000, 0x0708, 0x0506 :: 16 word] = 4 \<and>
   spec_int64_raw FEHGBADC [0x0302, 0x0000, 0x0708, 0x0506] = 0x0000020306050807 \<and>
   map_option (map_sum id u64_of_bytes)
     (reorder_int64 MODBUS_INT64_UNSIGNED_FEHGBADC [0x0302, 0x0000, 0x0708, 0x0506]) =
     Some (Inr 0x0000020306050807) \<and>
   modbus_convert_int64 (Some [0x0302, 0x0000, 0x0708, 0x0506]) MODBUS_INT64_UNSIGNED_FEHGBADC
     double_1_0 (Some (U64 0)) = Some (MODBUS_CONV_OK, Some (U64 0x0000020306050807))"
proof -
  have h: "length [0x0302, 0x0000, 0x0708, 0x0506 :: 16 word] = 4" by simp
  have v: "spec_int64_raw FEHGBADC [0x0302, 0x0000, 0x0708, 0x0506] = 0x0000020306050807"
    by code_simp
  have s: "cast_unsigned (scale_int (uint (0x0000020306050807 :: 64 word)) double_1_0) =
      Some (0x0000020306050807 :: 64 word)"
    by code_simp
  show ?thesis
    using h v s int64_raw_value_follows_table [OF h, of FEHGBADC double_1_0 "U64 0"]
    by simp
qed

section \<open>The 32-bit patterns\<close>

lemma reorder_int32_bytes:
  "reorder_int32 MODBUS_INT32_UNSIGNED_ABCD [w0, w1] =
     Some (Inr [hi_byte w0, lo_byte w0, hi_byte w1, lo_byte w1])"
  "reorder_int32 MODBUS_INT32_UNSIGNED_DCBA [w0, w1] =
     Some (Inr [lo_byte w0, hi_byte w0, lo_byte w1, hi_byte w1])"
  "reorder_int32 MODBUS_INT32_UNSIGNED_BADC [w0, w1] =
     Some (Inr [lo_byte w0, hi_byte w0, lo_byte w1, hi_byte w1])"
  "reorder_int32 MODBUS_INT32_UNSIGNED_CDAB [w0, w1] =
     Some (Inr [hi_byte w1, lo_byte w1, hi_byte w0, lo_byte w0])"
  by (simp_all add: reorder_int32_def tag_defs reg_at_def loop4
        swap_bytes_16_eq hi_byte_swapped lo_byte_swapped)

text \<open>
  C1.  The claim is that \<open>DCBA\<close> decoding yields the byte-reversal of the four bytes that
  \<open>ABCD\<close> decoding yields.  The decoder does not: for every two words its \<open>DCBA\<close> branch
  yields the bytes of its \<open>BADC\<close> branch, since it both exchanges the words and reverses
  the bytes.  On the words \<open>0x1234, 0x5678\<close> the \<open>ABCD\<close> bytes are \<open>12 34 56 78\<close> and the
  \<open>DCBA\<close> bytes are \<open>34 12 78 56\<close>, not \<open>78 56 34 12\<close>; \<open>DCBA\<close> decoding gives
  \<open>0x34127856\<close> where \<open>ABCD\<close> decoding of the byte-reversed registers gives \<open>0x78563412\<close>.
\<close>

theorem dcba_decoding_is_not_byte_reversal:
  "reorder_int32 MODBUS_INT32_UNSIGNED_ABCD [0x1234, 0x5678] = Some (Inr [0x12, 0x34, 0x56, 0x78]) \<and>
   reorder_int32 MODBUS_INT32_UNSIGNED_DCBA [0x1234, 0x5678] = Some (Inr [0x34, 0x12, 0x78, 0x56]) \<and>
   [0x34, 0x12, 0x78, 0x56] \<noteq> rev [0x12, 0x34, 0x56, 0x78 :: 8 word] \<and>
   modbus_convert (Some [0x1234, 0x5678]) 2 MODBUS_INT32_UNSIGNED_DCBA 0 double_1_0 (Some old) =
     Some (MODBUS_CONV_OK, Some (U32 0x34127856)) \<and>
   modbus_convert (Some [0x7856, 0x3412]) 2 MODBUS_INT32_UNSIGNED_ABCD 0 double_1_0 (Some old) =
     Some (MODBUS_CONV_OK, Some (U32 0x78563412)) \<and>
   reorder_int32 MODBUS_INT32_UNSIGNED_DCBA [w0, w1] =
     reorder_int32 MODBUS_INT32_UNSIGNED_BADC [w0, w1]"
proof -
  have a: "reorder_int32 MODBUS_INT32_UNSIGNED_ABCD [0x1234, 0x5678] =
      Some (Inr [0x12, 0x34, 0x56, 0x78])"
    by code_simp
  have b: "reorder_int32 MODBUS_INT32_UNSIGNED_DCBA [0x1234, 0x5678] =
      Some (Inr [0x34, 0x12, 0x78, 0x56])"
    by code_simp
  have c: "modbus_convert (Some [0x1234, 0x5678]) 2 MODBUS_INT32_UNSIGNED_DCBA 0 double_1_0
      (Some old) = Some (MODBUS_CONV_OK, Some (U32 0x34127856))"
    by code_simp
  have d: "modbus_convert (Some [0x7856, 0x3412]) 2 MODBUS_INT32_UNSIGNED_ABCD 0 double_1_0
      (Some old) = Some (MODBUS_CONV_OK, Some (U32 0x78563412))"
    by code_simp
  show ?thesis using a b c d by (simp add: reorder_int32_bytes)
qed

text \<open>
  C3.  Registers \<open>0x0001, 0x0000\<close> decoded as unsigned 32-bit with pattern \<open>CDAB\<close> and
  scaling factor 2.0 give \<open>MODBUS_CONV_OK\<close> and the value 2.  \<open>CDAB\<close> puts the second word
  first and the first word second, each word big-endian; the raw value here is 1, its
  product with 2.0 is 2.0, and the cast to \<open>uint32_t\<close> yields 2.
\<close>

theorem cdab_scaling_scenario:
  "modbus_convert (Some [0x0001, 0x0000]) 2 MODBUS_INT32_UNSIGNED_CDAB bit_pos double_2_0
     (Some old) = Some (MODBUS_CONV_OK, Some (U32 2)) \<and>
   modbus_convert_int32 (Some [0x0001, 0x0000]) MODBUS_INT32_UNSIGNED_CDAB double_2_0
     (Some old) = Some (MODBUS_CONV_OK, Some (U32 2)) \<and>
   reorder_int32 MODBUS_INT32_UNSIGNED_CDAB [w0, w1] =
     Some (Inr [hi_byte w1, lo_byte w1, hi_byte w0, lo_byte w0]) \<and>
   u32_of_bytes [hi_byte 0x0000, lo_byte 0x0000, hi_byte 0x0001, lo_byte 0x0001] = 1 \<and>
   cast_unsigned (scale_int (uint (1 :: 32 word)) double_2_0) = Some (2 :: 32 word)"
proof -
  have a: "modbus_convert (Some [0x0001, 0x0000]) 2 MODBUS_INT32_UNSIGNED_CDAB bit_pos double_2_0
      (Some old) = Some (MODBUS_CONV_OK, Some (U32 2))"
    by code_simp
  have b: "modbus_convert_int32 (Some [0x0001, 0x0000]) MODBUS_INT32_UNSIGNED_CDAB double_2_0
      (Some old) = Some (MODBUS_CONV_OK, Some (U32 2))"
    by code_simp
  have c: "u32_of_bytes [hi_byte 0x0000, lo_byte 0x0000, hi_byte 0x0001, lo_byte 0x0001] = 1"
    by code_simp
  have d: "cast_unsigned (scale_int (uint (1 :: 32 word)) double_2_0) = Some (2 :: 32 word)"
    by code_simp
  show ?thesis using a b c d by (simp add: reorder_int32_bytes)
qed

section \<open>Scaling by 1.0\<close>

lemma b64 [simp]:
  "ebits binary64 = 11" "fbits binary64 = 52" "bias binary64 = 1023"
  "inf_mag binary64 = 0x7FF0000000000000"
  by (simp_all add: binary64_def bias_def inf_mag_def)

lemma b32 [simp]:
  "ebits binary32 = 8" "fbits binary32 = 23" "bias binary32 = 127"
  "inf_mag binary32 = 0x7F800000"
  by (simp_all add: binary32_def bias_def inf_mag_def)

lemma decode_mag_nonneg: "0 \<le> m \<Longrightarrow> 0 \<le> fst (decode_mag f m)"
  by (simp add: decode_mag_def Let_def)

lemma fp_of_word_one: "fp_of_word double_1_0 = (False, 0x3FF0000000000000)"
  by (simp add: fp_of_word_def double_1_0_def bit_simps take_bit_eq_mod)

lemma decode_one: "decode_mag binary64 0x3FF0000000000000 = (2 ^ 52, - 52)"
  by (simp add: decode_mag_def)

lemma fp_mul_one:
  assumes "0 \<le> snd a" "snd a \<le> inf_mag binary64"
  shows "fp_mul binary64 a (fp_of_word double_1_0) = a"
proof -
  obtain s m where a: "a = (s, m)" by (cases a)
  have m: "0 \<le> m" "m \<le> 0x7FF0000000000000" using assms by (simp_all add: a)
  show ?thesis
  proof (cases "m = 0x7FF0000000000000")
    case True
    then show ?thesis by (simp add: a fp_mul_def fp_of_word_one)
  next
    case False
    then have fin: "m < inf_mag binary64" using m(2) by simp
    obtain M E where d: "decode_mag binary64 m = (M, E)" by (cases "decode_mag binary64 m")
    have M: "0 \<le> M" using decode_mag_nonneg [OF m(1), of binary64] d by simp
    have "round_mag binary64 (M * 2 ^ 52, E - int 52) = round_mag binary64 (M, E)"
      using M by (rule round_mag_scale)
    also have "\<dots> = m" using round_mag_decode [OF m(1) fin] d by simp
    finally have r: "round_mag binary64 (M * 2 ^ 52, E - 52) = m" by simp
    show ?thesis using fin m(1) r
      by (simp add: a fp_mul_def fp_of_word_one decode_one d Let_def)
  qed
qed

lemma fp_of_int_exact:
  assumes "\<bar>i\<bar> < 2 ^ 53"
  shows "0 \<le> snd (fp_of_int binary64 i) \<and> snd (fp_of_int binary64 i) < inf_mag binary64 \<and>
         fp_to_int binary64 (fp_of_int binary64 i) = Some i"
proof (cases "i = 0")
  case True
  then show ?thesis by (simp add: fp_of_int_def round_mag_def fp_to_int_def decode_mag_def)
next
  case False
  define M where "M = \<bar>i\<bar>"
  define m where "m = round_mag binary64 (M, 0)"
  have M: "0 < M" using False by (simp add: M_def)
  have L: "bitlen M \<le> 53" using assms by (simp add: bitlen_le_iff_power M_def)
  have L1: "1 \<le> bitlen M" using M by (smt (verit) bitlen_eq_zero_iff bitlen_nonneg)
  obtain j :: nat where j: "53 - bitlen M = int j"
    using L by (metis diff_ge_0_iff_ge nonneg_int_cases)
  have r: "0 \<le> m" "m < inf_mag binary64" "decode_mag binary64 m = (M * 2 ^ j, - int j)"
    using round_mag_repr [of M binary64 0] M L L1 by (simp_all add: j m_def)
  have "fp_to_int binary64 (i < 0, m) = Some (if i < 0 then - M else M)"
    using r(2) unfolding fp_to_int_def by (simp add: r(3) Let_def)
  then have "fp_to_int binary64 (i < 0, m) = Some i" by (simp add: M_def)
  then show ?thesis using r(1,2) by (simp add: fp_of_int_def m_def M_def)
qed

lemma scale_int_one:
  assumes "\<bar>i\<bar> < 2 ^ 53"
  shows "fp_to_int binary64 (scale_int i double_1_0) = Some i"
  using fp_of_int_exact [OF assms] by (simp add: scale_int_def fp_mul_one)

lemma cast_unsigned_one:
  fixes w :: "'a::len word"
  assumes "LENGTH('a) \<le> 53"
  shows "cast_unsigned (scale_int (uint w) double_1_0) = Some w"
proof -
  have "uint w < 2 ^ LENGTH('a)" by (rule uint_lt2p)
  also have "(2::int) ^ LENGTH('a) \<le> 2 ^ 53" using assms by (rule power_increasing) simp
  finally have "\<bar>uint w\<bar> < 2 ^ 53" by simp
  then show ?thesis by (simp add: cast_unsigned_def scale_int_one)
qed


section \<open>16-bit unsigned decoding\<close>

text \<open>
  C5.  For every input word and scaling factor 1.0, 16-bit unsigned decoding returns the
  input word when no swap (AB) is requested and the word with its two bytes exchanged when
  the swap (BA) is requested, through the specialised decoder and through
  \<open>modbus_convert\<close> with any non-zero register count.
\<close>

theorem int16_unsigned_identity_scaling:
  "modbus_convert_int16_unsigned (Some (v # rs)) False double_1_0 (Some old) =
     Some (MODBUS_CONV_OK, Some (U16 v)) \<and>
   modbus_convert_int16_unsigned (Some (v # rs)) True double_1_0 (Some old) =
     Some (MODBUS_CONV_OK, Some (U16 (byte_swapped v))) \<and>
   modbus_convert (Some (v # rs)) (Suc n) MODBUS_INT16_UNSIGNED_AB bit_pos double_1_0 (Some old) =
     Some (MODBUS_CONV_OK, Some (U16 v)) \<and>
   modbus_convert (Some (v # rs)) (Suc n) MODBUS_INT16_UNSIGNED_BA bit_pos double_1_0 (Some old) =
     Some (MODBUS_CONV_OK, Some (U16 (byte_swapped v))) \<and>
   hi_byte (byte_swapped v) = lo_byte v \<and> lo_byte (byte_swapped v) = hi_byte v"
proof -
  have a: "modbus_convert_int16_unsigned (Some (v # rs)) False double_1_0 (Some old) =
      Some (MODBUS_CONV_OK, Some (U16 v))"
    by (simp add: modbus_convert_int16_unsigned_def reg_at_def cast_unsigned_one)
  have b: "modbus_convert_int16_unsigned (Some (v # rs)) True double_1_0 (Some old) =
      Some (MODBUS_CONV_OK, Some (U16 (byte_swapped v)))"
    by (simp add: modbus_convert_int16_unsigned_def reg_at_def cast_unsigned_one swap_bytes_16_eq)
  have c: "modbus_convert (Some (v # rs)) (Suc n) MODBUS_INT16_UNSIGNED_AB bit_pos double_1_0
      (Some old) = Some (MODBUS_CONV_OK, Some (U16 v))"
    using a by (simp add: modbus_convert_def tag_defs)
  have d: "modbus_convert (Some (v # rs)) (Suc n) MODBUS_INT16_UNSIGNED_BA bit_pos double_1_0
      (Some old) = Some (MODBUS_CONV_OK, Some (U16 (byte_swapped v)))"
    using b by (simp add: modbus_convert_def tag_defs)
  show ?thesis by (intro conjI a b c d hi_byte_swapped lo_byte_swapped)
qed

section \<open>8-bit signed decoding\<close>






section \<open>The float32 round trip\<close>

lemma word_of_fp_of_word: "word_of_fp (fp_of_word w) = w"
proof (rule bit_word_eqI)
  fix k
  assume k: "k < LENGTH('a)"
  show "bit (word_of_fp (fp_of_word w) :: 'a word) k = bit w k"
  proof (cases "k = LENGTH('a) - 1")
    case True
    then show ?thesis using k
      by (simp add: word_of_fp_def fp_of_word_def bit_simps)
  next
    case False
    then have "k < LENGTH('a) - 1" using k by simp
    then show ?thesis using k False
      by (simp add: word_of_fp_def fp_of_word_def bit_simps)
  qed
qed

lemma bytes_of_halves:
  fixes w :: "32 word"
  shows "hi_byte (ucast (drop_bit 16 w)) = ucast (drop_bit 24 w)"
    "lo_byte (ucast (drop_bit 16 w)) = ucast (drop_bit 16 w)"
    "hi_byte (ucast w) = ucast (drop_bit 8 w)"
    "lo_byte (ucast w) = ucast w"
  unfolding hi_byte_def lo_byte_def
  by (rule bit_word_eqI; simp add: bit_simps; fastforce)+

lemma u32_of_encode_be32:
  fixes w :: "32 word"
  shows "u32_of_bytes [hi_byte (ucast (drop_bit 16 w)), lo_byte (ucast (drop_bit 16 w)),
                 hi_byte (ucast w), lo_byte (ucast w)] = w"
proof (rule bit_word_eqI)
  fix k
  assume "k < LENGTH(32)"
  then consider "k < 8" | "8 \<le> k" "k < 16" | "16 \<le> k" "k < 24" | "24 \<le> k" "k < 32"
    by fastforce
  then show "bit (u32_of_bytes [hi_byte (ucast (drop_bit 16 w)), lo_byte (ucast (drop_bit 16 w)),
                 hi_byte (ucast w), lo_byte (ucast w)]) k = bit w k"
    by cases (auto simp: u32_of_bytes_def bytes_of_halves bit_simps)
qed

lemma fp_of_word_nonneg: "0 \<le> snd (fp_of_word w)"
  by (simp add: fp_of_word_def)

lemma widen_roundtrip:
  assumes "0 \<le> m" "m < inf_mag binary32"
  shows "0 \<le> round_mag binary64 (decode_mag binary32 m) \<and>
         round_mag binary64 (decode_mag binary32 m) < inf_mag binary64 \<and>
         round_mag binary32 (decode_mag binary64 (round_mag binary64 (decode_mag binary32 m))) = m"
proof -
  obtain M E where d: "decode_mag binary32 m = (M, E)" by (cases "decode_mag binary32 m")
  define w where "w = round_mag binary64 (M, E)"
  have rt: "round_mag binary32 (M, E) = m" using round_mag_decode [OF assms(1,2)] d by simp
  have "0 \<le> w \<and> w < inf_mag binary64 \<and> round_mag binary32 (decode_mag binary64 w) = m"
  proof (cases "M = 0")
    case True
    then have "w = 0" by (simp add: w_def round_mag_def)
    moreover have "round_mag binary32 (decode_mag binary64 0) = m"
      using rt True by (simp add: decode_mag_def round_mag_def)
    ultimately show ?thesis by simp
  next
    case False
    have M0: "0 \<le> M" using decode_mag_nonneg [OF assms(1), of binary32] d by simp
    then have M: "0 < M" using False by simp
    have rng: "bitlen M \<le> 24 \<and> - 149 \<le> bitlen M - 1 + E \<and> bitlen M - 1 + E \<le> 127"
    proof (cases "m div 2 ^ 23 = 0")
      case True
      then have "M = m mod 2 ^ 23" "E = - 149" using d by (simp_all add: decode_mag_def)
      moreover have "m mod 2 ^ 23 < 2 ^ 23" by simp
      ultimately have "bitlen M \<le> 23" "E = - 149" using M
        by (simp_all add: bitlen_le_iff_power)
      moreover have "1 \<le> bitlen M" using M by (smt (verit) bitlen_eq_zero_iff bitlen_nonneg)
      ultimately show ?thesis by simp
    next
      case False
      then have ME: "M = 2 ^ 23 + m mod 2 ^ 23" "E = m div 2 ^ 23 - 150"
        using d by (simp_all add: decode_mag_def)
      have "bitlen M = 24" unfolding ME
        using bitlen_twopow_add_eq [of "m mod 2 ^ 23" 23] by simp
      moreover have "1 \<le> m div 2 ^ 23" using False assms(1)
        by (smt (verit) pos_imp_zdiv_nonneg_iff zero_less_numeral zero_less_power)
      moreover have "m div 2 ^ 23 < 255" using assms(2) by simp
      ultimately show ?thesis using ME(2) by simp
    qed
    have "0 \<le> 53 - bitlen M" using rng by simp
    then obtain j :: nat where j: "53 - bitlen M = int j"
      using nonneg_int_cases by blast
    have r: "0 \<le> w" "w < inf_mag binary64" "decode_mag binary64 w = (M * 2 ^ j, E - int j)"
      using round_mag_repr [of M binary64 E] M rng by (simp_all add: w_def j)
    have "round_mag binary32 (decode_mag binary64 w) = round_mag binary32 (M, E)"
      unfolding r(3) using M0 by (rule round_mag_scale)
    then show ?thesis using r(1,2) rt by simp
  qed
  then show ?thesis by (simp add: w_def d)
qed

lemma scale_float32_one:
  assumes "\<not> is_nan32 w"
  shows "scale_float32 w double_1_0 = w"
proof -
  obtain s m where a: "fp_of_word w = (s, m)" by (cases "fp_of_word w")
  have m0: "0 \<le> m" using fp_of_word_nonneg [of w] by (simp add: a)
  have m1: "m \<le> inf_mag binary32" using assms by (simp add: is_nan32_def a)
  have "fp_convert binary64 binary32
          (fp_mul binary64 (fp_convert binary32 binary64 (s, m)) (fp_of_word double_1_0)) = (s, m)"
  proof (cases "m = inf_mag binary32")
    case True
    have "fp_convert binary32 binary64 (s, m) = (s, inf_mag binary64)"
      using True by (simp add: fp_convert_def)
    moreover have "fp_mul binary64 (s, inf_mag binary64) (fp_of_word double_1_0) =
        (s, inf_mag binary64)"
      by (rule fp_mul_one) simp_all
    moreover have "fp_convert binary64 binary32 (s, inf_mag binary64) = (s, m)"
      using True by (simp add: fp_convert_def)
    ultimately show ?thesis by simp
  next
    case False
    then have fin: "m < inf_mag binary32" using m1 by simp
    define v where "v = round_mag binary64 (decode_mag binary32 m)"
    have v: "0 \<le> v" "v < inf_mag binary64" "round_mag binary32 (decode_mag binary64 v) = m"
      using widen_roundtrip [OF m0 fin] by (simp_all add: v_def)
    have "fp_convert binary32 binary64 (s, m) = (s, v)"
      using fin by (simp add: fp_convert_def v_def)
    moreover have "fp_mul binary64 (s, v) (fp_of_word double_1_0) = (s, v)"
      using v(1,2) by (intro fp_mul_one) simp_all
    moreover have "fp_convert binary64 binary32 (s, v) = (s, m)"
      using v(2,3) by (simp add: fp_convert_def)
    ultimately show ?thesis by simp
  qed
  then have "scale_float32 w double_1_0 = word_of_fp (fp_of_word w)"
    by (simp add: scale_float32_def a)
  then show ?thesis by (simp add: word_of_fp_of_word)
qed

text \<open>
  C6.  For every binary32 bit pattern that is not a NaN, the pattern encoded as two
  big-endian register words and decoded with \<open>MODBUS_IEEE_FLOAT32_ABCD\<close> and scaling factor
  1.0 comes back bit for bit.
\<close>

theorem float32_round_trip:
  assumes "\<not> is_nan32 w"
  shows
    "modbus_convert_float32 (Some (encode_be32 w)) MODBUS_IEEE_FLOAT32_ABCD double_1_0 (Some old) =
       Some (MODBUS_CONV_OK, Some (F32 w)) \<and>
     modbus_convert (Some (encode_be32 w)) 2 MODBUS_IEEE_FLOAT32_ABCD bit_pos double_1_0 (Some old) =
       Some (MODBUS_CONV_OK, Some (F32 w))"
proof -
  have r: "reorder_float32 MODBUS_IEEE_FLOAT32_ABCD (encode_be32 w) =
      Some (Inr [hi_byte (ucast (drop_bit 16 w)), lo_byte (ucast (drop_bit 16 w)),
                 hi_byte (ucast w), lo_byte (ucast w)])"
    by (simp add: reorder_float32_def encode_be32_def reg_at_def regs_to_bytes_2)
  have a: "modbus_convert_float32 (Some (encode_be32 w)) MODBUS_IEEE_FLOAT32_ABCD double_1_0
      (Some old) = Some (MODBUS_CONV_OK, Some (F32 w))"
    by (simp add: modbus_convert_float32_def r u32_of_encode_be32 scale_float32_one [OF assms])
  have b: "modbus_convert (Some (encode_be32 w)) 2 MODBUS_IEEE_FLOAT32_ABCD bit_pos double_1_0
      (Some old) = Some (MODBUS_CONV_OK, Some (F32 w))"
    using a by (simp add: modbus_convert_def tag_defs)
  show ?thesis using a b by simp
qed

text \<open>The theorem at the pattern \<open>0x3F800000\<close> of 1.0, in registers \<open>0x3F80, 0x0000\<close>.\<close>

theorem float32_round_trip_witness:
  "\<not> is_nan32 0x3F800000 \<and> encode_be32 0x3F800000 = [0x3F80, 0x0000] \<and>
   modbus_convert (Some [0x3F80, 0x0000]) 2 MODBUS_IEEE_FLOAT32_ABCD 0 double_1_0 (Some (F32 0)) =
     Some (MODBUS_CONV_OK, Some (F32 0x3F800000))"
proof -
  have h: "\<not> is_nan32 0x3F800000" by code_simp
  have e: "encode_be32 0x3F800000 = [0x3F80, 0x0000]" by code_simp
  show ?thesis using h e float32_round_trip [OF h, of "F32 0" 0] by simp
qed

end
